theory Spec2Isabelle
  imports Main "HOL-Library.Char_ord" "HOL-Library.List_Lexorder"
begin

section \<open>Python values used by the release-status script\<close>

text \<open>
  The script \<^verbatim>\<open>utilities/release-status\<close> is Python.  A Python \<^verbatim>\<open>str\<close> is
  modelled as a \<^typ>\<open>string\<close> whose characters are read as the code points
  U+0000 to U+00FF.  An exception is a value of type \<open>error\<close>; a function that can
  raise returns \<open>error + 'a\<close> with \<open>Inl\<close> for the exception.
\<close>

datatype error =
    RuntimeError string
  | ValueError
  | KeyError string
  | IndexError
  | TypeError
  | AttributeError
  | AssertionError
  | CalledProcessError

subsection \<open>String methods\<close>

text \<open>\<^verbatim>\<open>s.startswith(p)\<close>\<close>

definition py_startswith :: "string \<Rightarrow> string \<Rightarrow> bool" where
  "py_startswith s p = (take (length p) s = p)"

text \<open>\<^verbatim>\<open>sub in s\<close> for two strings: \<open>sub\<close> occurs in \<open>s\<close> as a substring.\<close>

fun py_contains :: "string \<Rightarrow> string \<Rightarrow> bool" where
  "py_contains sub [] = (sub = [])"
| "py_contains sub (x # xs) = (py_startswith (x # xs) sub \<or> py_contains sub xs)"

text \<open>\<^verbatim>\<open>s.split(sep)\<close> for a separator of one character.\<close>

fun py_split :: "char \<Rightarrow> string \<Rightarrow> string list" where
  "py_split sep [] = [[]]"
| "py_split sep (x # xs) =
     (if x = sep then [] # py_split sep xs
      else (case py_split sep xs of
              [] \<Rightarrow> [[x]]
            | p # ps \<Rightarrow> (x # p) # ps))"

text \<open>\<^verbatim>\<open>s.split(sep, 1)\<close>: at most one split, at the first separator.\<close>

definition py_split1 :: "char \<Rightarrow> string \<Rightarrow> string list" where
  "py_split1 sep s =
     (if sep \<in> set s
      then [takeWhile (\<lambda>x. x \<noteq> sep) s, tl (dropWhile (\<lambda>x. x \<noteq> sep) s)]
      else [s])"

text \<open>\<^verbatim>\<open>s.rsplit(sep, 1)\<close>: at most one split, at the last separator.\<close>

definition py_rsplit1 :: "char \<Rightarrow> string \<Rightarrow> string list" where
  "py_rsplit1 sep s =
     (if sep \<in> set s
      then [rev (tl (dropWhile (\<lambda>x. x \<noteq> sep) (rev s))),
            rev (takeWhile (\<lambda>x. x \<noteq> sep) (rev s))]
      else [s])"

text \<open>\<^verbatim>\<open>sep.join(xs)\<close>\<close>

fun py_join :: "string \<Rightarrow> string list \<Rightarrow> string" where
  "py_join sep [] = []"
| "py_join sep [x] = x"
| "py_join sep (x # y # ys) = x @ sep @ py_join sep (y # ys)"

text \<open>\<^verbatim>\<open>s.replace(old, new)\<close>: every non-overlapping occurrence, from the left.\<close>

function py_replace :: "string \<Rightarrow> string \<Rightarrow> string \<Rightarrow> string" where
  "py_replace [] new s = new @ concat (map (\<lambda>c. c # new) s)"
| "py_replace (c # old) new [] = []"
| "py_replace (c # old) new (x # xs) =
     (if py_startswith (x # xs) (c # old)
      then new @ py_replace (c # old) new (drop (length (c # old)) (x # xs))
      else x # py_replace (c # old) new xs)"
  by pat_completeness auto
termination
  by (relation "measure (\<lambda>(old, new, s). length s)") auto

text \<open>\<^verbatim>\<open>s.strip()\<close>: the white space of the code points below U+0100.\<close>

definition py_isspace :: "char \<Rightarrow> bool" where
  "py_isspace c = (c \<in> set [CHR 0x09, CHR 0x0A, CHR 0x0B, CHR 0x0C, CHR 0x0D,
                            CHR 0x1C, CHR 0x1D, CHR 0x1E, CHR 0x1F, CHR 0x20,
                            CHR 0x85, CHR 0xA0])"

definition py_strip :: "string \<Rightarrow> string" where
  "py_strip s = rev (dropWhile py_isspace (rev (dropWhile py_isspace s)))"

text \<open>
  \<^verbatim>\<open>s.splitlines()\<close>: a line ends at LF, VT, FF, CR, CR LF, FS, GS, RS or NEL;
  no empty last line.
\<close>

definition py_linebreak :: "char \<Rightarrow> bool" where
  "py_linebreak c = (c \<in> set [CHR 0x0A, CHR 0x0B, CHR 0x0C, CHR 0x0D,
                              CHR 0x1C, CHR 0x1D, CHR 0x1E, CHR 0x85])"

fun splitlines_from :: "bool \<Rightarrow> string \<Rightarrow> string \<Rightarrow> string list" where
  "splitlines_from after_cr cur [] = (if cur = [] then [] else [rev cur])"
| "splitlines_from after_cr cur (x # xs) =
     (if after_cr \<and> x = CHR 0x0A then splitlines_from False cur xs
      else if py_linebreak x then rev cur # splitlines_from (x = CHR 0x0D) [] xs
      else splitlines_from False (x # cur) xs)"

definition py_splitlines :: "string \<Rightarrow> string list" where
  "py_splitlines s = splitlines_from False [] s"

text \<open>\<^verbatim>\<open>xs[i]\<close> for \<open>i \<ge> 0\<close>: raises IndexError out of range.\<close>

definition py_index :: "'a list \<Rightarrow> nat \<Rightarrow> error + 'a" where
  "py_index xs i = (if i < length xs then Inr (xs ! i) else Inl IndexError)"

section \<open>Version helpers\<close>

text \<open>
  \<^verbatim>\<open>def get_major_version(version): return version.rsplit(".", 1)[0]\<close>
  (\<open>rsplit\<close> never returns an empty list, so the index 0 always exists).
\<close>

definition get_major_version :: "string \<Rightarrow> string" where
  "get_major_version version = hd (py_rsplit1 CHR ''.'' version)"

definition get_version_grade :: "string \<Rightarrow> error + string" where
  "get_version_grade version =
     (if \<not> py_contains ''-'' version then Inr ''final''
      else (case py_index (py_split CHR ''-'' version) 1 of
              Inl e \<Rightarrow> Inl e
            | Inr version_suffix \<Rightarrow>
                if py_startswith version_suffix ''beta'' then Inr ''beta''
                else if py_startswith version_suffix ''rc'' then Inr ''rc''
                else Inl (RuntimeError (''Unknown version suffix: '' @ version_suffix))))"

text \<open>The \<^verbatim>\<open>if/elif/else\<close> chain of \<^verbatim>\<open>get_snap_release_channel\<close>.\<close>

definition channel_of_grade :: "string \<Rightarrow> string \<Rightarrow> error + string" where
  "channel_of_grade major_version version_grade =
     (if version_grade = ''final'' then Inr (major_version @ ''/stable'')
      else if version_grade = ''rc'' then Inr (major_version @ ''/candidate'')
      else if version_grade = ''beta'' then Inr (major_version @ ''/beta'')
      else Inl (RuntimeError (''Unknown version grade: '' @ version_grade)))"

definition get_snap_release_channel :: "string \<Rightarrow> error + string" where
  "get_snap_release_channel version =
     (let major_version = get_major_version version
      in case get_version_grade version of
           Inl e \<Rightarrow> Inl e
         | Inr version_grade \<Rightarrow> channel_of_grade major_version version_grade)"

section \<open>JSON bodies and the macaroon error text\<close>

text \<open>
  What \<^verbatim>\<open>res.json()\<close> returns.  \<open>JObj\<close> lists the items of a Python dict, each
  key once; the payload of a number is never inspected by the script.
\<close>

datatype json =
    JNull
  | JBool bool
  | JNum int
  | JStr string
  | JArr "json list"
  | JObj "(string \<times> json) list"

text \<open>
  An HTTP response: \<^verbatim>\<open>res.status_code\<close>, \<^verbatim>\<open>res.text\<close>, and the value of
  \<^verbatim>\<open>res.json()\<close>, which is \<open>None\<close> when the body is not JSON (the call then raises
  a \<^verbatim>\<open>ValueError\<close>).
\<close>

record response =
  status_code :: int
  res_text :: string
  res_json :: "json option"

definition get_macaroon_refresh_help :: string where
  "get_macaroon_refresh_help =
     ''  Please refresh it:\<newline>'' @
     ''    rm -f release.macaroon\<newline>'' @
     ''    snapcraft export-login --snaps maas,maas-test-db '' @ [CHR 0x5C] @ ''\<newline>'' @
     ''        --acls package_release,package_access release.macaroon''"

text \<open>
  The elements a \<^verbatim>\<open>for\<close> loop draws from a JSON value: the items of a list, the keys
  of a dict, the characters of a string; anything else is not iterable.
\<close>

fun py_iter :: "json \<Rightarrow> error + json list" where
  "py_iter (JArr xs) = Inr xs"
| "py_iter (JObj d) = Inr (map (\<lambda>kv. JStr (fst kv)) d)"
| "py_iter (JStr s) = Inr (map (\<lambda>c. JStr [c]) s)"
| "py_iter _ = Inl TypeError"

text \<open>
  A value inside an f-string: a \<^verbatim>\<open>str\<close> is inserted as it is; how Python's
  \<^verbatim>\<open>str()\<close> renders any other value is the parameter \<open>str_of\<close>.
\<close>

fun py_format :: "(json \<Rightarrow> string) \<Rightarrow> json \<Rightarrow> string" where
  "py_format str_of (JStr s) = s"
| "py_format str_of v = str_of v"

text \<open>
  The \<^verbatim>\<open>for error in result.get("error_list", [])\<close> loop of
  \<^verbatim>\<open>get_macaroon_auth_error\<close>; the result is the value of \<^verbatim>\<open>error_message\<close> after
  the loop.  \<^verbatim>\<open>error.get\<close> exists on a dict only; \<^verbatim>\<open>error["extra"]["permission"]\<close>
  raises \<^verbatim>\<open>KeyError\<close> on a missing key and \<^verbatim>\<open>TypeError\<close> when \<^verbatim>\<open>extra\<close> is not
  a dict.
\<close>

fun scan_error_list ::
  "(json \<Rightarrow> string) \<Rightarrow> string \<Rightarrow> string \<Rightarrow> json list \<Rightarrow> error + string" where
  "scan_error_list str_of snap_name error_message [] = Inr error_message"
| "scan_error_list str_of snap_name error_message (JObj err # errs) =
     (if map_of err ''code'' = Some (JStr ''macaroon-needs-refresh'')
      then Inr (''Macaroon has expired.\<newline>'' @ get_macaroon_refresh_help)
      else if map_of err ''code'' = Some (JStr ''macaroon-permission-required'')
      then (case map_of err ''extra'' of
              None \<Rightarrow> Inl (KeyError ''extra'')
            | Some (JObj extra) \<Rightarrow>
                (case map_of extra ''permission'' of
                   None \<Rightarrow> Inl (KeyError ''permission'')
                 | Some missing_permission \<Rightarrow>
                     Inr (''Macaroon doesn't have '' @ py_format str_of missing_permission @
                          '' for '' @ snap_name @ ''.\<newline>'' @
                          get_macaroon_refresh_help))
            | Some _ \<Rightarrow> Inl TypeError)
      else scan_error_list str_of snap_name error_message errs)"
| "scan_error_list str_of snap_name error_message (_ # errs) = Inl AttributeError"

definition get_macaroon_auth_error ::
  "(json \<Rightarrow> string) \<Rightarrow> response \<Rightarrow> string \<Rightarrow> error + string option" where
  "get_macaroon_auth_error str_of res snap_name =
     (if status_code res \<in> set [200, 404] then Inr None
      else if status_code res \<in> set [401, 403]
      then (case res_json res of
              None \<Rightarrow> Inl ValueError
            | Some (JObj result) \<Rightarrow>
                (case py_iter (case map_of result ''error_list'' of
                                 None \<Rightarrow> JArr []
                               | Some v \<Rightarrow> v) of
                   Inl e \<Rightarrow> Inl e
                 | Inr errs \<Rightarrow>
                     (case scan_error_list str_of snap_name (res_text res) errs of
                        Inl e \<Rightarrow> Inl e
                      | Inr error_message \<Rightarrow> Inr (Some error_message)))
            | Some _ \<Rightarrow> Inl AttributeError)
      else Inr (Some (res_text res)))"

section \<open>The environment of a run\<close>

text \<open>
  Published packages and archives as the Launchpad client returns them.
  \<open>published_maas_sources\<close> is the result of
  \<^verbatim>\<open>getPublishedSources(source_name="maas", status="Published", distro_series=...)\<close>,
  \<open>published_sources\<close> the one without \<^verbatim>\<open>source_name\<close>, and
  \<open>published_maas_binaries\<close> that of
  \<^verbatim>\<open>getPublishedBinaries(binary_name="maas", exact_match=True, status="Published")\<close>.
\<close>

record source_publication =
  source_package_name :: string
  source_package_version :: string

record binary_publication =
  distro_arch_series_link :: string
  binary_package_version :: string

record ppa =
  processors :: "string list"
  published_sources :: "source_publication list"
  published_maas_sources :: "source_publication list"
  published_maas_binaries :: "binary_publication list"

type_synonym check_result = "bool \<times> string option"

text \<open>
  Everything the script reads from outside: the standard output of the git
  commands it runs, the file system, the snap store, Launchpad.  A person or team
  of Launchpad is identified with its name.  \<open>getPPAByName\<close> gives \<open>None\<close> where
  the client raises \<^verbatim>\<open>NotFound\<close>.  \<open>official_maas_remote\<close> is the result of
  \<^verbatim>\<open>get_official_maas_remote()\<close>, whose commands run with \<^verbatim>\<open>check=True\<close>;
  \<open>branch_setup_version\<close> that of \<^verbatim>\<open>get_branch_setup_version()\<close>.
  \<open>snaps_uploaded\<close> and \<open>snaps_in_channel\<close> are the outcomes of the two checks on
  the store's upload history, which are not unfolded further here.
\<close>

record env =
  git_rev_parse_short :: "string \<Rightarrow> string"
  git_rev_list_1 :: "string \<Rightarrow> string"
  git_branch_r_contains :: "string \<Rightarrow> string"
  git_diff_index_returncode :: int
  official_maas_remote :: "error + string option"
  branch_setup_version :: "string option"
  dpkg_parsechangelog_version :: string
  glob :: "string \<Rightarrow> string list"
  snap_track_update :: "string \<Rightarrow> string \<Rightarrow> string \<Rightarrow> response"
  lp_me :: string
  getPPAByName :: "string \<Rightarrow> string \<Rightarrow> ppa option"
  py_str :: "json \<Rightarrow> string"
  login_section :: "(string \<times> string) list option"
  macaroon_auth :: "(string \<times> string) list \<Rightarrow> error + string"
  snaps_uploaded :: "error + check_result"
  snaps_in_channel :: "string \<Rightarrow> error + check_result"

definition MAAS_SNAP_ID :: string where
  "MAAS_SNAP_ID = ''shY22YTZ3RhJJDOj0MfmShTNZTEb1Jiq''"

definition BUILD_ARCHS :: "string list" where
  "BUILD_ARCHS = [''amd64'', ''arm64'', ''ppc64el'', ''s390x'']"

definition get_git_short_rev :: "env \<Rightarrow> string \<Rightarrow> string" where
  "get_git_short_rev env commit = py_strip (git_rev_parse_short env commit)"

definition get_tag_commit :: "env \<Rightarrow> string \<Rightarrow> string" where
  "get_tag_commit env tag_name = py_strip (git_rev_list_1 env (''tags/'' @ tag_name))"

definition get_remote_branches_containing :: "env \<Rightarrow> string \<Rightarrow> string list list" where
  "get_remote_branches_containing env commit =
     map (\<lambda>branch. py_split1 CHR ''/'' (py_strip branch))
         (py_splitlines (git_branch_r_contains env commit))"

text \<open>\<^verbatim>\<open>f"{x}"\<close> for a value that is a \<^verbatim>\<open>str\<close> or \<^verbatim>\<open>None\<close>.\<close>

definition format_optional :: "string option \<Rightarrow> string" where
  "format_optional x = (case x of None \<Rightarrow> ''None'' | Some s \<Rightarrow> s)"

section \<open>The release preparer and its steps\<close>

text \<open>
  The attributes \<^verbatim>\<open>ReleasePreparer.__init__\<close> sets.  The Launchpad handle
  \<^verbatim>\<open>lp\<close> is the environment; \<^verbatim>\<open>steps\<close> is passed to \<open>run\<close>.
\<close>

record ReleasePreparer =
  version :: string
  python_version :: string
  major_version :: string
  snapstore_auth :: string
  git_short_rev :: string

definition ReleasePreparer_init :: "env \<Rightarrow> string \<Rightarrow> string \<Rightarrow> ReleasePreparer" where
  "ReleasePreparer_init env ver auth =
     \<lparr> version = ver,
       python_version =
         py_replace ''-rc'' ''rc'' (py_replace ''-beta'' ''b'' (py_replace ''-alpha'' ''a'' ver)),
       major_version = get_major_version ver,
       snapstore_auth = auth,
       git_short_rev = get_git_short_rev env ''HEAD'' \<rparr>"

text \<open>
  A \<^verbatim>\<open>ReleaseStep\<close>: its title and its \<^verbatim>\<open>check()\<close>, which reads the environment
  and returns \<^verbatim>\<open>(succeeded, message)\<close> or raises.
\<close>

record 'e step =
  title :: string
  check :: "'e \<Rightarrow> error + check_result"

subsection \<open>NoUncommittedChanges\<close>

definition NoUncommittedChanges_check :: "env \<Rightarrow> error + check_result" where
  "NoUncommittedChanges_check env =
     (if git_diff_index_returncode env = 0 then Inr (True, None)
      else Inr (False, Some ''Commit and push all changes before releasing.''))"

definition NoUncommittedChanges :: "ReleasePreparer \<Rightarrow> env step" where
  "NoUncommittedChanges preparer =
     \<lparr> title = ''No uncommitted changes'', check = NoUncommittedChanges_check \<rparr>"

subsection \<open>CommitInRemoteBranch\<close>

text \<open>The branch \<^verbatim>\<open>CommitInRemoteBranch.check\<close> looks for (its first four lines).\<close>

definition release_branch_name :: "ReleasePreparer \<Rightarrow> string" where
  "release_branch_name preparer =
     (if py_contains ''beta'' (version preparer) \<or> py_contains ''alpha'' (version preparer)
      then ''master''
      else major_version preparer)"

text \<open>
  The loop \<^verbatim>\<open>for remote, branch_name in remote_branches\<close>: unpacking an entry that
  has not exactly two elements raises \<^verbatim>\<open>ValueError\<close>.
\<close>

fun in_remote_branch :: "string option \<Rightarrow> string \<Rightarrow> string list list \<Rightarrow> error + bool" where
  "in_remote_branch official branch [] = Inr False"
| "in_remote_branch official branch ([remote, branch_name] # rest) =
     (if Some remote = official \<and> branch_name = branch then Inr True
      else in_remote_branch official branch rest)"
| "in_remote_branch official branch (_ # rest) = Inl ValueError"

definition CommitInRemoteBranch_check :: "ReleasePreparer \<Rightarrow> env \<Rightarrow> error + check_result" where
  "CommitInRemoteBranch_check preparer env =
     (case official_maas_remote env of
        Inl e \<Rightarrow> Inl e
      | Inr official \<Rightarrow>
          (case in_remote_branch official (release_branch_name preparer)
                  (get_remote_branches_containing env ''HEAD'') of
             Inl e \<Rightarrow> Inl e
           | Inr found \<Rightarrow>
               if found then Inr (True, None)
               else Inr (False, Some (''Current HEAD is not in '' @ format_optional official @
                                      ''/'' @ release_branch_name preparer))))"

definition CommitInRemoteBranch :: "ReleasePreparer \<Rightarrow> env step" where
  "CommitInRemoteBranch preparer =
     \<lparr> title = ''Release commit in remote branch'',
       check = CommitInRemoteBranch_check preparer \<rparr>"

subsection \<open>MAASVersion\<close>

definition MAASVersion_check :: "ReleasePreparer \<Rightarrow> env \<Rightarrow> error + check_result" where
  "MAASVersion_check preparer env =
     (let setup_version = branch_setup_version env
      in if setup_version \<noteq> Some (python_version preparer)
         then Inr (False, Some (''setup.cfg has '' @ format_optional setup_version @
                                '', run utilities/release-prepare''))
         else
           let no_epoch_version = last (py_split1 CHR '':'' (dpkg_parsechangelog_version env));
               no_ubuntu_version = hd (py_split1 CHR ''-'' no_epoch_version);
               package_version = py_replace ''~'' ''-'' no_ubuntu_version
           in if package_version \<noteq> version preparer
              then Inr (False, Some (''changelog has '' @ package_version @ '' (expected '' @
                                     version preparer @ ''), run utilities/release-prepare''))
              else Inr (True, None))"

definition MAASVersion :: "ReleasePreparer \<Rightarrow> env step" where
  "MAASVersion preparer =
     \<lparr> title = ''MAAS version set in branch'', check = MAASVersion_check preparer \<rparr>"

subsection \<open>SnapTrack\<close>

definition SnapTrack_check :: "ReleasePreparer \<Rightarrow> string \<Rightarrow> env \<Rightarrow> error + check_result" where
  "SnapTrack_check preparer snap_name env =
     (let res = snap_track_update env snap_name (major_version preparer)
                  (snapstore_auth preparer)
      in case get_macaroon_auth_error (py_str env) res snap_name of
           Inl e \<Rightarrow> Inl e
         | Inr auth_error \<Rightarrow> Inr (status_code res = 200, auth_error))"

definition SnapTrack :: "ReleasePreparer \<Rightarrow> string \<Rightarrow> env step" where
  "SnapTrack preparer snap_name =
     \<lparr> title = snap_name @ '' '' @ major_version preparer @ '' snap track'',
       check = SnapTrack_check preparer snap_name \<rparr>"

subsection \<open>MAASPPA and the checks built on it\<close>

record MAASPPA =
  ppa_type :: string
  ppa_name :: string
  ppa_owner :: string

text \<open>
  \<^verbatim>\<open>MAASPPA.__init__\<close>.  The owner is \<^verbatim>\<open>lp.people["maas"]\<close>, or \<^verbatim>\<open>lp.me\<close> for the
  release-preparation archive.
\<close>

definition MAASPPA_init :: "env \<Rightarrow> ReleasePreparer \<Rightarrow> string \<Rightarrow> error + MAASPPA" where
  "MAASPPA_init env preparer ptype =
     (if ptype \<notin> set [''stable'', ''candidate'', ''release-preparation'']
      then Inl AssertionError
      else if ptype = ''candidate''
      then Inr \<lparr> ppa_type = ptype, ppa_name = major_version preparer @ ''-next'',
                 ppa_owner = ''maas'' \<rparr>
      else if ptype = ''release-preparation''
      then Inr \<lparr> ppa_type = ptype,
                 ppa_name = ''maas-'' @ major_version preparer @ ''-next'',
                 ppa_owner = lp_me env \<rparr>
      else Inr \<lparr> ppa_type = ptype, ppa_name = major_version preparer,
                 ppa_owner = ''maas'' \<rparr>)"

definition ppa_not_found :: "string \<Rightarrow> string \<Rightarrow> check_result" where
  "ppa_not_found owner name =
     (False, Some (''ppa:'' @ owner @ ''/'' @ name @ '' couldn't be found.''))"

text \<open>
  \<^verbatim>\<open>sorted(set(BUILD_ARCHS).difference(archs))\<close>
\<close>

definition missing_build_archs :: "string list \<Rightarrow> string list" where
  "missing_build_archs archs = sort (remdups (filter (\<lambda>a. a \<notin> set archs) BUILD_ARCHS))"

definition MAASPPA_check :: "MAASPPA \<Rightarrow> env \<Rightarrow> error + check_result" where
  "MAASPPA_check self env =
     (case getPPAByName env (ppa_owner self) (ppa_name self) of
        None \<Rightarrow> Inr (ppa_not_found (ppa_owner self) (ppa_name self))
      | Some ppa \<Rightarrow>
          (let missing_archs = missing_build_archs (processors ppa)
           in if missing_archs \<noteq> []
              then Inr (False, Some (''Missing build architectures: '' @
                                     py_join '', '' missing_archs))
              else Inr (True, None)))"

definition MAASPPA_step :: "MAASPPA \<Rightarrow> env step" where
  "MAASPPA_step self =
     \<lparr> title = ''MAAS '' @ ppa_type self @ '' PPA ('' @ ppa_owner self @ ''/'' @
               ppa_name self @ '')'',
       check = MAASPPA_check self \<rparr>"

text \<open>\<^verbatim>\<open>MAASPPA._check_packages_copied\<close>\<close>

definition check_packages_copied :: "ppa \<Rightarrow> ppa \<Rightarrow> check_result" where
  "check_packages_copied source_ppa target_ppa =
     (let target_packages =
            map (\<lambda>package. (source_package_name package, source_package_version package))
                (published_sources target_ppa)
      in case List.find
                (\<lambda>package. (source_package_name package, source_package_version package)
                              \<notin> set target_packages)
                (published_sources source_ppa) of
           Some package \<Rightarrow>
             (False, Some (source_package_name package @ '' '' @
                           source_package_version package @ '' has not been copied''))
         | None \<Rightarrow> (True, None))"

text \<open>
  \<^verbatim>\<open>MAASPackagePublished._check_version\<close>.  Python's \<^verbatim>\<open>and\<close> evaluates
  \<^verbatim>\<open>version_parts[2]\<close> only when the first comparison holds.
\<close>

definition check_version :: "ReleasePreparer \<Rightarrow> string \<Rightarrow> error + bool" where
  "check_version preparer package_version =
     (let expected_package_version = py_replace ''-'' ''~'' (version preparer);
          package_version' =
            (if py_contains '':'' package_version
             then last (py_split1 CHR '':'' package_version)
             else package_version);
          version_parts = py_split CHR ''-'' package_version'
      in case py_index version_parts 0 of
           Inl e \<Rightarrow> Inl e
         | Inr part0 \<Rightarrow>
             if part0 \<noteq> expected_package_version then Inr False
             else (case py_index version_parts 2 of
                     Inl e \<Rightarrow> Inl e
                   | Inr part2 \<Rightarrow> Inr (part2 = ''g.'' @ git_short_rev preparer)))"

text \<open>The loop over the published binaries; the set is kept as a list.\<close>

fun published_architectures ::
  "ReleasePreparer \<Rightarrow> binary_publication list \<Rightarrow> error + string list" where
  "published_architectures preparer [] = Inr []"
| "published_architectures preparer (binary # binaries) =
     (let arch = last (py_split CHR ''/'' (distro_arch_series_link binary))
      in case check_version preparer (binary_package_version binary) of
           Inl e \<Rightarrow> Inl e
         | Inr ok \<Rightarrow>
             (case published_architectures preparer binaries of
                Inl e \<Rightarrow> Inl e
              | Inr archs \<Rightarrow> Inr (if ok then arch # archs else archs)))"

text \<open>Python's rendering of a list of strings free of quotes and escapes.\<close>

definition py_repr_list :: "string list \<Rightarrow> string" where
  "py_repr_list xs =
     ''['' @ py_join '', '' (map (\<lambda>x. [CHR 0x27] @ x @ [CHR 0x27]) xs) @ '']''"

definition MAASPackagePublished_check ::
  "ReleasePreparer \<Rightarrow> MAASPPA \<Rightarrow> env \<Rightarrow> error + check_result" where
  "MAASPackagePublished_check preparer self env =
     (case getPPAByName env (ppa_owner self) (ppa_name self) of
        None \<Rightarrow> Inr (ppa_not_found (ppa_owner self) (ppa_name self))
      | Some ppa \<Rightarrow>
          (let sources = published_maas_sources ppa
           in if sources = []
              then Inr (False, Some ''Source package hasn't been published or uploaded yet.'')
              else
                (case sources of
                   [package] \<Rightarrow>
                     (case check_version preparer (source_package_version package) of
                        Inl e \<Rightarrow> Inl e
                      | Inr ok \<Rightarrow>
                          if \<not> ok
                          then Inr (False,
                                 Some (''Currently published source version is '' @
                                       source_package_version package @ ''. Expected '' @
                                       py_replace ''-'' ''~'' (version preparer)))
                          else
                            (let binaries = published_maas_binaries ppa
                             in if binaries = []
                                then Inr (False,
                                       Some ''Binary packages haven't been published yet.'')
                                else
                                  (case published_architectures preparer binaries of
                                     Inl e \<Rightarrow> Inl e
                                   | Inr archs \<Rightarrow>
                                       (let non_published_architectures =
                                              missing_build_archs archs
                                        in if non_published_architectures \<noteq> []
                                           then Inr (False,
                                                  Some (''Binary package hasn't been published for: '' @
                                                        py_repr_list non_published_architectures))
                                           else Inr (True, None)))))
                 | _ \<Rightarrow> Inl ValueError)))"

definition MAASPackagePublished :: "ReleasePreparer \<Rightarrow> MAASPPA \<Rightarrow> env step" where
  "MAASPackagePublished preparer self =
     \<lparr> title = ''MAAS package published in ('' @ ppa_owner self @ ''/'' @ ppa_name self @ '')'',
       check = MAASPackagePublished_check preparer self \<rparr>"

definition PackagesCopiedFromDeps_check :: "MAASPPA \<Rightarrow> env \<Rightarrow> error + check_result" where
  "PackagesCopiedFromDeps_check self env =
     (case getPPAByName env ''maas-committers'' ''latest-deps'' of
        None \<Rightarrow> Inr (False, Some ''ppa:maas-committers/latest-deps couldn't be found.'')
      | Some source_ppa \<Rightarrow>
          (case getPPAByName env (ppa_owner self) (ppa_name self) of
             None \<Rightarrow> Inr (ppa_not_found (ppa_owner self) (ppa_name self))
           | Some target_ppa \<Rightarrow> Inr (check_packages_copied source_ppa target_ppa)))"

definition PackagesCopiedFromDeps :: "MAASPPA \<Rightarrow> env step" where
  "PackagesCopiedFromDeps self =
     \<lparr> title = ''Packages copied from ppa:maas-committers/latest-deps'',
       check = PackagesCopiedFromDeps_check self \<rparr>"

definition PackagesCopiedToReleasePPA_check :: "MAASPPA \<Rightarrow> env \<Rightarrow> error + check_result" where
  "PackagesCopiedToReleasePPA_check self env =
     (case getPPAByName env (lp_me env) (''maas-'' @ ppa_name self) of
        None \<Rightarrow> Inr (ppa_not_found (lp_me env) (''maas-'' @ ppa_name self))
      | Some source_ppa \<Rightarrow>
          (case getPPAByName env (ppa_owner self) (ppa_name self) of
             None \<Rightarrow> Inr (ppa_not_found (ppa_owner self) (ppa_name self))
           | Some target_ppa \<Rightarrow> Inr (check_packages_copied source_ppa target_ppa)))"

definition PackagesCopiedToReleasePPA :: "MAASPPA \<Rightarrow> env step" where
  "PackagesCopiedToReleasePPA self =
     \<lparr> title = ''Packages copied to ppa:'' @ ppa_owner self @ ''/'' @ ppa_name self,
       check = PackagesCopiedToReleasePPA_check self \<rparr>"

subsection \<open>PackageBuilt\<close>

text \<open>
  \<^verbatim>\<open>[orig_tgz] = tar_gzs\<close> unpacks a list of exactly one element and raises
  \<^verbatim>\<open>ValueError\<close> on any other.
\<close>

definition PackageBuilt_check :: "ReleasePreparer \<Rightarrow> env \<Rightarrow> error + check_result" where
  "PackageBuilt_check preparer env =
     (let short_rev = git_short_rev preparer;
          package_version = py_replace ''-'' ''~'' (version preparer);
          tar_gzs = glob env (''build_pkg/maas_'' @ package_version @ ''-*-g.'' @ short_rev @
                              ''.orig.tar.gz'')
      in if length tar_gzs = 0
         then Inr (False, Some ''No orig.tar.gz could be found for the current revision'')
         else (case tar_gzs of
                 [orig_tgz] \<Rightarrow> Inr (True, None)
               | _ \<Rightarrow> Inl ValueError))"

definition PackageBuilt :: "ReleasePreparer \<Rightarrow> env step" where
  "PackageBuilt preparer =
     \<lparr> title = ''MAAS source package is built'', check = PackageBuilt_check preparer \<rparr>"

subsection \<open>SnapsUploaded and SnapsInChannel\<close>

definition SnapsUploaded :: "ReleasePreparer \<Rightarrow> env step" where
  "SnapsUploaded preparer =
     \<lparr> title = ''Snaps have been built and uploaded to the store.'',
       check = snaps_uploaded \<rparr>"

definition SnapsInChannel :: "ReleasePreparer \<Rightarrow> string \<Rightarrow> env step" where
  "SnapsInChannel preparer channel =
     \<lparr> title = ''Snaps have been released to '' @ channel,
       check = (\<lambda>env. snaps_in_channel env channel) \<rparr>"

subsection \<open>ReleaseTagged\<close>

text \<open>\<^verbatim>\<open>remotes = [remote for remote, _ in remote_branches]\<close>\<close>

fun remotes_of :: "string list list \<Rightarrow> error + string list" where
  "remotes_of [] = Inr []"
| "remotes_of ([remote, branch_name] # rest) =
     (case remotes_of rest of Inl e \<Rightarrow> Inl e | Inr remotes \<Rightarrow> Inr (remote # remotes))"
| "remotes_of (_ # rest) = Inl ValueError"

definition ReleaseTagged_check :: "ReleasePreparer \<Rightarrow> env \<Rightarrow> error + check_result" where
  "ReleaseTagged_check preparer env =
     (let tag_name = version preparer;
          tagged_revision = get_git_short_rev env (get_tag_commit env tag_name)
      in if tagged_revision = get_git_short_rev env tag_name
         then Inr (False, Some (''The '' @ tag_name @ '' isn't an annotated tag''))
         else if tagged_revision = []
         then Inr (False, Some ''Release hasn't been tagged yet.'')
         else if tagged_revision \<noteq> git_short_rev preparer
         then Inr (False, Some (tag_name @ '' points to '' @ tagged_revision @
                                '' instead of '' @ git_short_rev preparer))
         else
           (case official_maas_remote env of
              Inl e \<Rightarrow> Inl e
            | Inr official \<Rightarrow>
                (case remotes_of (get_remote_branches_containing env tag_name) of
                   Inl e \<Rightarrow> Inl e
                 | Inr remotes \<Rightarrow>
                     if official \<notin> set (map Some remotes)
                     then Inr (False, Some (tag_name @ '' tag is not pushed to '' @
                                            format_optional official))
                     else Inr (True, None))))"

definition ReleaseTagged :: "ReleasePreparer \<Rightarrow> env step" where
  "ReleaseTagged preparer =
     \<lparr> title = ''Release has been tagged'', check = ReleaseTagged_check preparer \<rparr>"

section \<open>Running the steps\<close>

text \<open>
  What the script writes: text on standard output (with the line end that
  \<^verbatim>\<open>print\<close> adds), one of the two glyphs followed by a line end, or text on
  standard error.
\<close>

datatype glyph = large_red_circle | check_mark

datatype printed = Stdout string | StdoutGlyph glyph | Stderr string

text \<open>What \<^verbatim>\<open>run\<close> and \<^verbatim>\<open>main\<close> return.\<close>

datatype return_value = ReturnNone | ReturnInt int | ReturnStr string

text \<open>
  \<^verbatim>\<open>if message: for line in message.splitlines(): print("  " + str(line))\<close>:
  nothing for \<^verbatim>\<open>None\<close> and for the empty string.
\<close>

definition print_message :: "string option \<Rightarrow> printed list" where
  "print_message message =
     (case message of
        None \<Rightarrow> []
      | Some m \<Rightarrow> if m = [] then []
                  else map (\<lambda>line. Stdout (''  '' @ line @ ''\<newline>'')) (py_splitlines m))"

text \<open>
  The \<^verbatim>\<open>for step in self.steps\<close> loop of \<^verbatim>\<open>ReleasePreparer.run\<close> from the value
  \<open>all_good\<close> has before a step: what is printed, and the final \<open>all_good\<close>, or the
  exception of the first check that raises, after the title of its step.
\<close>

fun run_steps :: "'e \<Rightarrow> 'e step list \<Rightarrow> bool \<Rightarrow> printed list \<times> (error + bool)" where
  "run_steps env [] all_good = ([], Inr all_good)"
| "run_steps env (s # steps) all_good =
     (case check s env of
        Inl e \<Rightarrow> ([Stdout (title s @ '': '')], Inl e)
      | Inr (success, message) \<Rightarrow>
          (let out = Stdout (title s @ '': '') #
                     StdoutGlyph (if \<not> success then large_red_circle else check_mark) #
                     print_message message;
               rest = run_steps env steps (if \<not> success then False else all_good)
           in (out @ fst rest, snd rest)))"

definition run :: "'e \<Rightarrow> 'e step list \<Rightarrow> printed list \<times> (error + return_value)" where
  "run env steps =
     (case run_steps env steps True of
        (out, Inl e) \<Rightarrow> (out, Inl e)
      | (out, Inr all_good) \<Rightarrow>
          if all_good
          then (out @ [Stdout ''\<newline>'', Stdout ''All checks PASSED!\<newline>''], Inr ReturnNone)
          else (out @ [Stdout ''\<newline>''],
                Inr (ReturnStr ''Some checks FAILED, proceed with caution'')))"

section \<open>The command line\<close>

definition bind_error :: "error + 'a \<Rightarrow> ('a \<Rightarrow> error + 'b) \<Rightarrow> error + 'b" where
  "bind_error m f = (case m of Inl e \<Rightarrow> Inl e | Inr x \<Rightarrow> f x)"

text \<open>
  The list \<^verbatim>\<open>preparer.steps\<close> of \<^verbatim>\<open>main\<close>, whose elements are constructed in
  order; a constructor or \<^verbatim>\<open>get_snap_release_channel\<close> raising ends \<^verbatim>\<open>main\<close>.
\<close>

definition main_steps :: "env \<Rightarrow> ReleasePreparer \<Rightarrow> error + env step list" where
  "main_steps env preparer =
     bind_error (MAASPPA_init env preparer ''stable'') (\<lambda>stable.
     bind_error (MAASPPA_init env preparer ''candidate'') (\<lambda>candidate.
     bind_error (MAASPPA_init env preparer ''release-preparation'') (\<lambda>release_preparation.
     bind_error (MAASPPA_init env preparer ''release-preparation'') (\<lambda>package_published.
     bind_error (get_snap_release_channel (version preparer)) (\<lambda>channel_prep.
     bind_error (MAASPPA_init env preparer ''release-preparation'') (\<lambda>from_deps.
     bind_error (MAASPPA_init env preparer ''candidate'') (\<lambda>to_release.
     bind_error (get_snap_release_channel (version preparer)) (\<lambda>channel.
       Inr [MAASVersion preparer,
            NoUncommittedChanges preparer,
            CommitInRemoteBranch preparer,
            SnapTrack preparer ''maas'',
            SnapTrack preparer ''maas-test-db'',
            MAASPPA_step stable,
            MAASPPA_step candidate,
            MAASPPA_step release_preparation,
            PackageBuilt preparer,
            MAASPackagePublished preparer package_published,
            SnapsUploaded preparer,
            SnapsInChannel preparer (channel_prep @ ''/release-prep''),
            PackagesCopiedFromDeps from_deps,
            PackagesCopiedToReleasePPA to_release,
            SnapsInChannel preparer channel,
            ReleaseTagged preparer]))))))))"

text \<open>
  \<^verbatim>\<open>main\<close>, from the value \<^verbatim>\<open>args.version\<close> that \<^verbatim>\<open>parse_args\<close> binds to the one
  positional argument of \<^verbatim>\<open>create_parser\<close>, which declares neither a type nor
  choices for it.
\<close>

definition main :: "env \<Rightarrow> string \<Rightarrow> printed list \<times> (error + return_value)" where
  "main env args_version =
     (case login_section env of
        None \<Rightarrow>
          ([Stderr ''Macaroon couldn't be found\<newline>'',
            Stderr (get_macaroon_refresh_help @ ''\<newline>'')],
           Inr (ReturnInt 1))
      | Some macaroon \<Rightarrow>
          (case macaroon_auth env macaroon of
             Inl e \<Rightarrow> ([], Inl e)
           | Inr auth \<Rightarrow>
               (let preparer = ReleasePreparer_init env args_version auth
                in case main_steps env preparer of
                     Inl e \<Rightarrow> ([], Inl e)
                   | Inr steps \<Rightarrow> run env steps)))"

section \<open>Notions used to state the properties\<close>

text \<open>A step passes when its check returns with \<^verbatim>\<open>succeeded\<close> true.\<close>

definition passed :: "'e \<Rightarrow> 'e step \<Rightarrow> bool" where
  "passed env s = (case check s env of Inl e \<Rightarrow> False | Inr r \<Rightarrow> fst r)"

text \<open>
  The report of one step whose check returns: its title, the glyph of its result,
  the lines of its message.
\<close>

definition step_report :: "'e \<Rightarrow> 'e step \<Rightarrow> printed list" where
  "step_report env s =
     (case check s env of
        Inl e \<Rightarrow> []
      | Inr r \<Rightarrow>
          Stdout (title s @ '': '') #
          StdoutGlyph (if fst r then check_mark else large_red_circle) #
          print_message (snd r))"

text \<open>The glyphs among what was printed: one for every check that returned.\<close>

fun glyphs :: "printed list \<Rightarrow> glyph list" where
  "glyphs [] = []"
| "glyphs (StdoutGlyph g # out) = g # glyphs out"
| "glyphs (_ # out) = glyphs out"

text \<open>
  The version pattern \<^verbatim>\<open><major>.<minor>.<micro>[(a|b|rc)<num>]\<close> as the
  specification words it: three numbers separated by dots, then optionally
  \<^verbatim>\<open>a\<close>, \<^verbatim>\<open>b\<close> or \<^verbatim>\<open>rc\<close> and a number.
\<close>

definition is_number :: "string \<Rightarrow> bool" where
  "is_number s = (s \<noteq> [] \<and> list_all (\<lambda>c. c \<in> set ''0123456789'') s)"

definition matches_version_pattern :: "string \<Rightarrow> bool" where
  "matches_version_pattern s =
     (case py_split CHR ''.'' s of
        [major, minor, rest] \<Rightarrow>
          (let micro = takeWhile (\<lambda>c. c \<in> set ''0123456789'') rest;
               qualifier = dropWhile (\<lambda>c. c \<in> set ''0123456789'') rest
           in is_number major \<and> is_number minor \<and> is_number micro \<and>
              (qualifier = [] \<or>
               (py_startswith qualifier ''rc'' \<and> is_number (drop 2 qualifier)) \<or>
               ((py_startswith qualifier ''a'' \<or> py_startswith qualifier ''b'') \<and>
                is_number (drop 1 qualifier))))
      | _ \<Rightarrow> False)"

text \<open>
  An entry of \<^verbatim>\<open>error_list\<close> the loop of \<^verbatim>\<open>get_macaroon_auth_error\<close> passes or
  answers without raising: a dict which, when its code is
  \<^verbatim>\<open>macaroon-permission-required\<close>, carries \<^verbatim>\<open>extra.permission\<close>.
\<close>

fun well_formed_error :: "json \<Rightarrow> bool" where
  "well_formed_error (JObj err) =
     (map_of err ''code'' = Some (JStr ''macaroon-permission-required'') \<longrightarrow>
        (case map_of err ''extra'' of
           Some (JObj extra) \<Rightarrow> map_of extra ''permission'' \<noteq> None
         | _ \<Rightarrow> False))"
| "well_formed_error _ = False"

text \<open>An entry the loop passes over: a dict whose code is neither of the two it knows.\<close>

fun unrecognised_error :: "json \<Rightarrow> bool" where
  "unrecognised_error (JObj err) =
     (map_of err ''code'' \<noteq> Some (JStr ''macaroon-needs-refresh'') \<and>
      map_of err ''code'' \<noteq> Some (JStr ''macaroon-permission-required''))"
| "unrecognised_error _ = False"

text \<open>A response of status 403 whose JSON body is an object with this \<^verbatim>\<open>error_list\<close>.\<close>

definition forbidden :: "json list \<Rightarrow> response" where
  "forbidden errs =
     \<lparr> status_code = 403, res_text = ''raw error body'',
       res_json = Some (JObj [(''error_list'', JArr errs)]) \<rparr>"

text \<open>
  An environment to evaluate the script in: HEAD is \<^verbatim>\<open>1a2b3c4\<close> on
  \<^verbatim>\<open>origin/master\<close>, nothing is tagged, built or published, and the store answers
  200 to every request.
\<close>

definition example_env :: env where
  "example_env =
     \<lparr> git_rev_parse_short = (\<lambda>commit. if commit = ''HEAD'' then ''1a2b3c4\<newline>'' else []),
       git_rev_list_1 = (\<lambda>commit. []),
       git_branch_r_contains = (\<lambda>commit. ''  origin/HEAD -> origin/master\<newline>  origin/master\<newline>''),
       git_diff_index_returncode = 0,
       official_maas_remote = Inr (Some ''origin''),
       branch_setup_version = Some ''3.1.0b3'',
       dpkg_parsechangelog_version = ''1:3.1.0~beta3-0ubuntu1\<newline>'',
       glob = (\<lambda>pattern. []),
       snap_track_update =
         (\<lambda>name track auth. \<lparr> status_code = 200, res_text = ''{}'', res_json = Some (JObj []) \<rparr>),
       lp_me = ''releaser'',
       getPPAByName = (\<lambda>owner name. None),
       py_str = (\<lambda>v. ''?''),
       login_section = Some [(''macaroon'', ''r''), (''unbound_discharge'', ''d'')],
       macaroon_auth = (\<lambda>conf. Inr ''Macaroon root=r, discharge=d''),
       snaps_uploaded = Inr (False, Some ''Missing builds for: amd64, arm64, ppc64el, s390x''),
       snaps_in_channel =
         (\<lambda>channel. Inr (False, Some ''Missing releases for: amd64, arm64, ppc64el, s390x'')) \<rparr>"

text \<open>The release of \<^verbatim>\<open>3.1.0-beta3\<close> prepared in the example environment.\<close>

definition example_preparer :: ReleasePreparer where
  "example_preparer = ReleasePreparer_init example_env ''3.1.0-beta3'' ''Macaroon root=r, discharge=d''"

text \<open>The release-preparation archive of the example release.\<close>

definition example_ppa :: MAASPPA where
  "example_ppa =
     \<lparr> ppa_type = ''release-preparation'', ppa_name = ''maas-3.1-next'',
       ppa_owner = ''releaser'' \<rparr>"

text \<open>Three steps over an empty environment: a failure, a success, a failure.\<close>

definition example_steps :: "unit step list" where
  "example_steps =
     [\<lparr> title = ''first'', check = (\<lambda>u. Inr (False, Some ''no\<newline>not yet'')) \<rparr>,
      \<lparr> title = ''second'', check = (\<lambda>u. Inr (True, None)) \<rparr>,
      \<lparr> title = ''third'', check = (\<lambda>u. Inr (False, Some [])) \<rparr>]"

section \<open>Facts about the string methods\<close>

lemma py_split_nonempty: "py_split sep s \<noteq> []"
  by (induction s) (auto split: list.splits)

lemma py_split_no_sep: "sep \<notin> set s \<Longrightarrow> py_split sep s = [s]"
  by (induction s) auto

lemma py_split_append: "py_split sep (a @ sep # b) = py_split sep a @ py_split sep b"
proof (induction a)
  case Nil
  show ?case by simp
next
  case (Cons x a)
  obtain p ps where p: "py_split sep a = p # ps"
    using py_split_nonempty [of sep a] by (cases "py_split sep a") auto
  show ?case using Cons p by simp
qed

lemma py_join_split: "py_join [sep] (py_split sep s) = s"
proof (induction s)
  case Nil
  show ?case by simp
next
  case (Cons x s)
  obtain p ps where p: "py_split sep s = p # ps"
    using py_split_nonempty [of sep s] by (cases "py_split sep s") auto
  show ?case
  proof (cases "x = sep")
    case True
    then show ?thesis using Cons p by simp
  next
    case False
    then show ?thesis using Cons p by (cases ps) auto
  qed
qed

lemma py_contains_char: "py_contains [c] s = (c \<in> set s)"
  by (induction s) (auto simp: py_startswith_def)

lemma py_contains_infix: "py_contains p (a @ p @ b)"
proof (induction a)
  case Nil
  show ?case
  proof (cases "p @ b")
    case Nil
    then show ?thesis by simp
  next
    case (Cons x xs)
    have "py_startswith (p @ b) p" by (simp add: py_startswith_def)
    then have "py_contains p (x # xs)" unfolding Cons by simp
    then show ?thesis using Cons by simp
  qed
next
  case (Cons x a)
  then show ?case by simp
qed

lemma py_contains_decomp: "py_contains p s \<Longrightarrow> \<exists>a b. s = a @ p @ b"
proof (induction s)
  case Nil
  then show ?case by simp
next
  case (Cons x xs)
  show ?case
  proof (cases "py_startswith (x # xs) p")
    case True
    then have "x # xs = [] @ p @ drop (length p) (x # xs)"
      using append_take_drop_id [of "length p" "x # xs"] by (simp add: py_startswith_def)
    then show ?thesis by blast
  next
    case False
    then have "py_contains p xs" using Cons.prems by simp
    then obtain a b where "xs = a @ p @ b" using Cons.IH by blast
    then have "x # xs = (x # a) @ p @ b" by simp
    then show ?thesis by blast
  qed
qed

lemma py_contains_iff_infix: "py_contains p s \<longleftrightarrow> (\<exists>a b. s = a @ p @ b)"
  using py_contains_decomp [of p s] py_contains_infix [of p] by blast

lemma last_sep_decomp:
  assumes "sep \<in> set s"
  shows "s = rev (tl (dropWhile (\<lambda>x. x \<noteq> sep) (rev s))) @
             sep # rev (takeWhile (\<lambda>x. x \<noteq> sep) (rev s))"
proof -
  let ?P = "\<lambda>x. x \<noteq> sep"
  have ne: "dropWhile ?P (rev s) \<noteq> []"
    using assms by (simp add: dropWhile_eq_Nil_conv)
  then have "hd (dropWhile ?P (rev s)) = sep"
    using hd_dropWhile [of ?P "rev s"] by simp
  then have d: "dropWhile ?P (rev s) = sep # tl (dropWhile ?P (rev s))"
    using ne by (cases "dropWhile ?P (rev s)") auto
  have "rev s = takeWhile ?P (rev s) @ dropWhile ?P (rev s)" by simp
  then have "rev s = takeWhile ?P (rev s) @ sep # tl (dropWhile ?P (rev s))"
    using d by simp
  then have "rev (rev s) = rev (takeWhile ?P (rev s) @ sep # tl (dropWhile ?P (rev s)))"
    by simp
  then show ?thesis by simp
qed

lemma startswith_takeWhile:
  "\<forall>x \<in> set p. P x \<Longrightarrow> py_startswith (takeWhile P s) p = py_startswith s p"
  unfolding py_startswith_def
proof (induction p arbitrary: s)
  case Nil
  show ?case by simp
next
  case (Cons a p)
  show ?case
  proof (cases s)
    case Nil
    then show ?thesis by simp
  next
    case (Cons y ys)
    then show ?thesis using Cons.prems Cons.IH [of ys] by auto
  qed
qed

lemma hd_py_split: "hd (py_split sep s) = takeWhile (\<lambda>x. x \<noteq> sep) s"
proof (induction s)
  case Nil
  show ?case by simp
next
  case (Cons x s)
  then show ?case using py_split_nonempty [of sep s]
    by (cases "py_split sep s") auto
qed

lemma get_major_version_butlast:
  "get_major_version v =
     (if CHR ''.'' \<in> set v
      then py_join ''.'' (butlast (py_split CHR ''.'' v))
      else v)"
proof (cases "CHR ''.'' \<in> set v")
  case False
  then show ?thesis by (simp add: get_major_version_def py_rsplit1_def)
next
  case True
  let ?a = "rev (tl (dropWhile (\<lambda>x. x \<noteq> CHR ''.'') (rev v)))"
  let ?b = "rev (takeWhile (\<lambda>x. x \<noteq> CHR ''.'') (rev v))"
  have v: "v = ?a @ CHR ''.'' # ?b" using last_sep_decomp [OF True] .
  have nb: "CHR ''.'' \<notin> set ?b"
    using set_takeWhileD [of _ "\<lambda>x. x \<noteq> CHR ''.''" "rev v"] by auto
  have "py_split CHR ''.'' (?a @ CHR ''.'' # ?b) = py_split CHR ''.'' ?a @ py_split CHR ''.'' ?b"
    by (rule py_split_append)
  then have "py_split CHR ''.'' v = py_split CHR ''.'' ?a @ [?b]"
    using v py_split_no_sep [OF nb] by simp
  then have "butlast (py_split CHR ''.'' v) = py_split CHR ''.'' ?a"
    by simp
  then have "py_join ''.'' (butlast (py_split CHR ''.'' v)) = ?a"
    using py_join_split [of "CHR ''.''" ?a] by simp
  then show ?thesis using True by (simp add: get_major_version_def py_rsplit1_def)
qed

lemma grade_of_dashed:
  assumes "CHR ''-'' \<notin> set pre"
  shows "get_version_grade (pre @ ''-'' @ suf) =
           (let version_suffix = takeWhile (\<lambda>x. x \<noteq> CHR ''-'') suf
            in if py_startswith suf ''beta'' then Inr ''beta''
               else if py_startswith suf ''rc'' then Inr ''rc''
               else Inl (RuntimeError (''Unknown version suffix: '' @ version_suffix)))"
proof -
  have sp: "py_split CHR ''-'' (pre @ ''-'' @ suf) = pre # py_split CHR ''-'' suf"
    using py_split_append [of "CHR ''-''" pre suf] py_split_no_sep [OF assms] by simp
  obtain p ps where p: "py_split CHR ''-'' suf = p # ps"
    using py_split_nonempty [of "CHR ''-''" suf] by (cases "py_split CHR ''-'' suf") auto
  have hp: "p = takeWhile (\<lambda>x. x \<noteq> CHR ''-'') suf"
    using hd_py_split [of "CHR ''-''" suf] p by simp
  have idx: "py_index (py_split CHR ''-'' (pre @ ''-'' @ suf)) 1 = Inr p"
    using sp p by (simp add: py_index_def)
  have c: "py_contains ''-'' (pre @ ''-'' @ suf)"
    by (simp add: py_contains_char)
  have b: "py_startswith p ''beta'' = py_startswith suf ''beta''"
    unfolding hp by (rule startswith_takeWhile) simp
  have r: "py_startswith p ''rc'' = py_startswith suf ''rc''"
    unfolding hp by (rule startswith_takeWhile) simp
  show ?thesis
    unfolding get_version_grade_def using c idx b r hp by (simp add: Let_def)
qed

section \<open>Properties of the version helpers\<close>

text \<open>
  C2 (as amended).  \<^verbatim>\<open>get_major_version\<close> removes the last dot-separated component of
  the version (and returns a version without a dot unchanged).  For a version of
  exactly three dot-separated components this is its first two components; so
  \<^verbatim>\<open>"3.1.0"\<close> and \<^verbatim>\<open>"3.1.0-beta1"\<close> both give \<^verbatim>\<open>"3.1"\<close>.
\<close>

theorem get_major_version_drops_last_component:
  "get_major_version v =
     (if CHR ''.'' \<in> set v then py_join ''.'' (butlast (py_split CHR ''.'' v)) else v) \<and>
   (length (py_split CHR ''.'' v) = 3 \<longrightarrow>
      get_major_version v = py_join ''.'' (take 2 (py_split CHR ''.'' v))) \<and>
   get_major_version ''3.1.0'' = ''3.1'' \<and>
   get_major_version ''3.1.0-beta1'' = ''3.1''"
proof -
  have a: "get_major_version v =
     (if CHR ''.'' \<in> set v then py_join ''.'' (butlast (py_split CHR ''.'' v)) else v)"
    by (rule get_major_version_butlast)
  have b: "get_major_version v = py_join ''.'' (take 2 (py_split CHR ''.'' v))"
    if l: "length (py_split CHR ''.'' v) = 3"
  proof -
    have "CHR ''.'' \<in> set v"
    proof (rule ccontr)
      assume "CHR ''.'' \<notin> set v"
      then have "py_split CHR ''.'' v = [v]" by (rule py_split_no_sep)
      then show False using l by simp
    qed
    moreover have "butlast (py_split CHR ''.'' v) = take 2 (py_split CHR ''.'' v)"
      using l by (simp add: butlast_conv_take)
    ultimately show ?thesis using a by simp
  qed
  have c: "get_major_version ''3.1.0'' = ''3.1''"
    by (simp add: get_major_version_def py_rsplit1_def)
  have d: "get_major_version ''3.1.0-beta1'' = ''3.1''"
    by (simp add: get_major_version_def py_rsplit1_def)
  show ?thesis using a b c d by blast
qed

text \<open>The three-component case of C2 at \<^verbatim>\<open>"3.1.0-beta1"\<close>.\<close>

theorem get_major_version_drops_last_component_witness:
  "length (py_split CHR ''.'' ''3.1.0-beta1'') = 3 \<and>
   get_major_version ''3.1.0-beta1'' = py_join ''.'' (take 2 (py_split CHR ''.'' ''3.1.0-beta1'')) \<and>
   py_join ''.'' (take 2 (py_split CHR ''.'' ''3.1.0-beta1'')) = ''3.1''"
proof -
  have l: "length (py_split CHR ''.'' ''3.1.0-beta1'') = 3" by simp
  have "get_major_version ''3.1.0-beta1'' =
          py_join ''.'' (take 2 (py_split CHR ''.'' ''3.1.0-beta1''))"
    using get_major_version_drops_last_component [of "''3.1.0-beta1''"] l by blast
  moreover have "py_join ''.'' (take 2 (py_split CHR ''.'' ''3.1.0-beta1'')) = ''3.1''"
    by (simp add: numeral_2_eq_2)
  ultimately show ?thesis using l by blast
qed

text \<open>
  C2 as stated fails for two and for four components: \<^verbatim>\<open>"3.1"\<close> gives \<^verbatim>\<open>"3"\<close> and
  \<^verbatim>\<open>"3.1.0.1"\<close> gives \<^verbatim>\<open>"3.1.0"\<close>, where the first two components are \<^verbatim>\<open>"3.1"\<close>.
\<close>

theorem get_major_version_not_first_two_components:
  "get_major_version ''3.1'' = ''3'' \<and>
   py_join ''.'' (take 2 (py_split CHR ''.'' ''3.1'')) = ''3.1'' \<and>
   get_major_version ''3.1.0.1'' = ''3.1.0'' \<and>
   py_join ''.'' (take 2 (py_split CHR ''.'' ''3.1.0.1'')) = ''3.1''"
  by (simp add: get_major_version_def py_rsplit1_def numeral_2_eq_2)

text \<open>
  C6.  A version without \<^verbatim>\<open>-\<close> has grade \<^verbatim>\<open>final\<close>.  For a version
  \<open>pre-suf\<close> split at its first \<^verbatim>\<open>-\<close>, the grade is \<^verbatim>\<open>beta\<close> when \<open>suf\<close> starts
  with \<^verbatim>\<open>beta\<close>, \<^verbatim>\<open>rc\<close> when it starts with \<^verbatim>\<open>rc\<close>, and otherwise
  \<^verbatim>\<open>get_version_grade\<close> raises \<^verbatim>\<open>RuntimeError\<close> and returns nothing.
\<close>

theorem get_version_grade_by_suffix:
  "(CHR ''-'' \<notin> set v \<longrightarrow> get_version_grade v = Inr ''final'') \<and>
   (CHR ''-'' \<notin> set pre \<and> py_startswith suf ''beta'' \<longrightarrow>
      get_version_grade (pre @ ''-'' @ suf) = Inr ''beta'') \<and>
   (CHR ''-'' \<notin> set pre \<and> py_startswith suf ''rc'' \<longrightarrow>
      get_version_grade (pre @ ''-'' @ suf) = Inr ''rc'') \<and>
   (CHR ''-'' \<notin> set pre \<and> \<not> py_startswith suf ''beta'' \<and> \<not> py_startswith suf ''rc'' \<longrightarrow>
      get_version_grade (pre @ ''-'' @ suf) =
        Inl (RuntimeError (''Unknown version suffix: '' @ takeWhile (\<lambda>x. x \<noteq> CHR ''-'') suf)))"
proof -
  have a: "get_version_grade v = Inr ''final''" if "CHR ''-'' \<notin> set v"
    using that by (simp add: get_version_grade_def py_contains_char)
  have b: "get_version_grade (pre @ ''-'' @ suf) = Inr ''beta''"
    if "CHR ''-'' \<notin> set pre" "py_startswith suf ''beta''"
    using grade_of_dashed [OF that(1), of suf] that(2) by (simp add: Let_def)
  have nb: "\<not> py_startswith suf ''beta''" if "py_startswith suf ''rc''"
    using that by (cases suf) (auto simp: py_startswith_def)
  have c: "get_version_grade (pre @ ''-'' @ suf) = Inr ''rc''"
    if "CHR ''-'' \<notin> set pre" "py_startswith suf ''rc''"
    using grade_of_dashed [OF that(1), of suf] that(2) nb [OF that(2)] by (simp add: Let_def)
  have d: "get_version_grade (pre @ ''-'' @ suf) =
        Inl (RuntimeError (''Unknown version suffix: '' @ takeWhile (\<lambda>x. x \<noteq> CHR ''-'') suf))"
    if "CHR ''-'' \<notin> set pre" "\<not> py_startswith suf ''beta''" "\<not> py_startswith suf ''rc''"
    using grade_of_dashed [OF that(1), of suf] that(2,3) by (simp add: Let_def)
  show ?thesis using a b c d by blast
qed

text \<open>The four cases of C6 at concrete versions.\<close>

theorem get_version_grade_by_suffix_witness:
  "get_version_grade ''3.1.0'' = Inr ''final'' \<and>
   get_version_grade ''3.1.0-beta3'' = Inr ''beta'' \<and>
   get_version_grade ''3.1.0-rc1'' = Inr ''rc'' \<and>
   get_version_grade ''3.1.0-alpha1'' = Inl (RuntimeError ''Unknown version suffix: alpha1'')"
  using get_version_grade_by_suffix [of "''3.1.0''" "''3.1.0''" "''beta3''"]
        get_version_grade_by_suffix [of "''3.1.0''" "''3.1.0''" "''rc1''"]
        get_version_grade_by_suffix [of "''3.1.0''" "''3.1.0''" "''alpha1''"]
  by (simp add: py_startswith_def)

text \<open>
  C7.  \<^verbatim>\<open>get_snap_release_channel\<close> takes the major version and the grade of the
  version and maps grade \<^verbatim>\<open>final\<close> to \<^verbatim>\<open><major>/stable\<close>, \<^verbatim>\<open>rc\<close> to
  \<^verbatim>\<open><major>/candidate\<close> and \<^verbatim>\<open>beta\<close> to \<^verbatim>\<open><major>/beta\<close>; for any other grade it
  raises \<^verbatim>\<open>RuntimeError\<close>, so a channel is returned for these three grades only.
\<close>

theorem get_snap_release_channel_by_grade:
  "channel_of_grade m ''final'' = Inr (m @ ''/stable'') \<and>
   channel_of_grade m ''rc'' = Inr (m @ ''/candidate'') \<and>
   channel_of_grade m ''beta'' = Inr (m @ ''/beta'') \<and>
   (g \<notin> {''final'', ''rc'', ''beta''} \<longrightarrow>
      channel_of_grade m g = Inl (RuntimeError (''Unknown version grade: '' @ g))) \<and>
   get_snap_release_channel v =
     (case get_version_grade v of
        Inl e \<Rightarrow> Inl e
      | Inr grade \<Rightarrow> channel_of_grade (get_major_version v) grade) \<and>
   (get_snap_release_channel v = Inr c \<longrightarrow>
      (get_version_grade v = Inr ''final'' \<and> c = get_major_version v @ ''/stable'') \<or>
      (get_version_grade v = Inr ''rc'' \<and> c = get_major_version v @ ''/candidate'') \<or>
      (get_version_grade v = Inr ''beta'' \<and> c = get_major_version v @ ''/beta''))"
proof -
  have a: "channel_of_grade m ''final'' = Inr (m @ ''/stable'')"
    by (simp add: channel_of_grade_def)
  have b: "channel_of_grade m ''rc'' = Inr (m @ ''/candidate'')"
    by (simp add: channel_of_grade_def)
  have c: "channel_of_grade m ''beta'' = Inr (m @ ''/beta'')"
    by (simp add: channel_of_grade_def)
  have d: "channel_of_grade m g = Inl (RuntimeError (''Unknown version grade: '' @ g))"
    if "g \<notin> {''final'', ''rc'', ''beta''}"
    using that by (simp add: channel_of_grade_def)
  have e: "get_snap_release_channel v =
     (case get_version_grade v of
        Inl e \<Rightarrow> Inl e
      | Inr grade \<Rightarrow> channel_of_grade (get_major_version v) grade)"
    by (simp add: get_snap_release_channel_def Let_def)
  have f: "(get_version_grade v = Inr ''final'' \<and> c = get_major_version v @ ''/stable'') \<or>
      (get_version_grade v = Inr ''rc'' \<and> c = get_major_version v @ ''/candidate'') \<or>
      (get_version_grade v = Inr ''beta'' \<and> c = get_major_version v @ ''/beta'')"
    if "get_snap_release_channel v = Inr c"
    using that unfolding e channel_of_grade_def
    by (auto split: sum.splits if_splits)
  show ?thesis using a b c d e f by blast
qed


text \<open>C7 at the grade \<^verbatim>\<open>alpha\<close> and at versions of major version \<^verbatim>\<open>3.1\<close>.\<close>

theorem get_snap_release_channel_by_grade_witness:
  "channel_of_grade ''3.1'' ''alpha'' = Inl (RuntimeError ''Unknown version grade: alpha'') \<and>
   get_snap_release_channel ''3.1.0'' = Inr ''3.1/stable'' \<and>
   get_snap_release_channel ''3.1.0-rc1'' = Inr ''3.1/candidate'' \<and>
   get_snap_release_channel ''3.1.0-beta1'' = Inr ''3.1/beta''"
proof -
  have g: "get_version_grade ''3.1.0'' = Inr ''final''"
    "get_version_grade ''3.1.0-rc1'' = Inr ''rc''"
    "get_version_grade ''3.1.0-beta1'' = Inr ''beta''"
    by (simp_all add: get_version_grade_def py_startswith_def py_index_def)
  have m: "get_major_version ''3.1.0'' = ''3.1''"
    "get_major_version ''3.1.0-rc1'' = ''3.1''"
    "get_major_version ''3.1.0-beta1'' = ''3.1''"
    by (simp_all add: get_major_version_def py_rsplit1_def)
  have n: "''alpha'' \<notin> {''final'', ''rc'', ''beta''}" by simp
  have a: "channel_of_grade ''3.1'' ''alpha'' = Inl (RuntimeError ''Unknown version grade: alpha'')"
    using get_snap_release_channel_by_grade [of "''3.1''" "''alpha''" "''3.1.0''" "''3.1/stable''"] n
    by simp
  have b: "get_snap_release_channel ''3.1.0'' = Inr ''3.1/stable''"
    using get_snap_release_channel_by_grade [of "''3.1''" "''alpha''" "''3.1.0''" "''3.1/stable''"]
    by (simp add: g m)
  have c: "get_snap_release_channel ''3.1.0-rc1'' = Inr ''3.1/candidate''"
    using get_snap_release_channel_by_grade [of "''3.1''" "''alpha''" "''3.1.0-rc1''" "''3.1/candidate''"]
    by (simp add: g m)
  have d: "get_snap_release_channel ''3.1.0-beta1'' = Inr ''3.1/beta''"
    using get_snap_release_channel_by_grade [of "''3.1''" "''alpha''" "''3.1.0-beta1''" "''3.1/beta''"]
    by (simp add: g m)
  show ?thesis using a b c d by blast
qed

section \<open>The release branch of a version\<close>

lemma release_branch_name_rule:
  "release_branch_name (ReleasePreparer_init env v auth) =
     (if py_contains ''beta'' v \<or> py_contains ''alpha'' v then ''master''
      else get_major_version v)"
  by (simp add: release_branch_name_def ReleasePreparer_init_def)

lemma CommitInRemoteBranch_check_branch:
  "CommitInRemoteBranch_check preparer env =
     (case official_maas_remote env of
        Inl e \<Rightarrow> Inl e
      | Inr official \<Rightarrow>
          (case in_remote_branch official (release_branch_name preparer)
                  (get_remote_branches_containing env ''HEAD'') of
             Inl e \<Rightarrow> Inl e
           | Inr found \<Rightarrow>
               if found then Inr (True, None)
               else Inr (False, Some (''Current HEAD is not in '' @ format_optional official @
                                      ''/'' @ release_branch_name preparer))))"
  by (simp add: CommitInRemoteBranch_check_def)

lemma example_remote_branches:
  "get_remote_branches_containing example_env ''HEAD'' =
     [[''origin'', ''HEAD -> origin/master''], [''origin'', ''master'']]"
  "get_remote_branches_containing
     (example_env \<lparr> git_branch_r_contains := (\<lambda>commit. ''  origin/3.1\<newline>'') \<rparr>) ''HEAD'' =
     [[''origin'', ''3.1'']]"
  "official_maas_remote example_env = Inr (Some ''origin'')"
  "official_maas_remote
     (example_env \<lparr> git_branch_r_contains := (\<lambda>commit. ''  origin/3.1\<newline>'') \<rparr>) =
     Inr (Some ''origin'')"
  by (simp_all add: get_remote_branches_containing_def example_env_def py_splitlines_def
      py_linebreak_def py_strip_def py_isspace_def py_split1_def)

text \<open>
  C8.  For the version \<^verbatim>\<open>3.1.0-beta3\<close> the major version is \<^verbatim>\<open>3.1\<close>, the grade
  \<^verbatim>\<open>beta\<close>, the channel \<^verbatim>\<open>3.1/beta\<close>, and \<^verbatim>\<open>CommitInRemoteBranch.check\<close> looks for
  the branch \<^verbatim>\<open>master\<close> of the official remote, not for \<^verbatim>\<open>3.1\<close>: with HEAD on
  \<^verbatim>\<open>origin/master\<close> the check passes, with HEAD on \<^verbatim>\<open>origin/3.1\<close> only it fails.
  The rule behind it, for every version: the branch is \<^verbatim>\<open>master\<close> when \<^verbatim>\<open>beta\<close> or
  \<^verbatim>\<open>alpha\<close> occurs in the version, and the major version otherwise; so
  \<^verbatim>\<open>3.1.0-alpha1\<close> selects \<^verbatim>\<open>master\<close>, while \<^verbatim>\<open>3.1.0-rc1\<close> and \<^verbatim>\<open>3.1.0\<close> select
  \<^verbatim>\<open>3.1\<close>, and the check of \<^verbatim>\<open>3.1.0-rc1\<close> passes with HEAD on \<^verbatim>\<open>origin/3.1\<close> and
  fails with HEAD on \<^verbatim>\<open>origin/master\<close> only.
\<close>

theorem beta_release_from_master:
  "get_major_version ''3.1.0-beta3'' = ''3.1'' \<and>
   get_version_grade ''3.1.0-beta3'' = Inr ''beta'' \<and>
   get_snap_release_channel ''3.1.0-beta3'' = Inr ''3.1/beta'' \<and>
   major_version (ReleasePreparer_init env ''3.1.0-beta3'' auth) = ''3.1'' \<and>
   release_branch_name (ReleasePreparer_init env ''3.1.0-beta3'' auth) = ''master'' \<and>
   CommitInRemoteBranch_check (ReleasePreparer_init env ''3.1.0-beta3'' auth) env =
     (case official_maas_remote env of
        Inl e \<Rightarrow> Inl e
      | Inr official \<Rightarrow>
          (case in_remote_branch official ''master''
                  (get_remote_branches_containing env ''HEAD'') of
             Inl e \<Rightarrow> Inl e
           | Inr found \<Rightarrow>
               if found then Inr (True, None)
               else Inr (False, Some (''Current HEAD is not in '' @ format_optional official @
                                      ''/master'')))) \<and>
   CommitInRemoteBranch_check (ReleasePreparer_init example_env ''3.1.0-beta3'' auth) example_env =
     Inr (True, None) \<and>
   CommitInRemoteBranch_check (ReleasePreparer_init example_env ''3.1.0-beta3'' auth)
       (example_env \<lparr> git_branch_r_contains := (\<lambda>commit. ''  origin/3.1\<newline>'') \<rparr>) =
     Inr (False, Some ''Current HEAD is not in origin/master'') \<and>
   release_branch_name (ReleasePreparer_init env v auth) =
     (if py_contains ''beta'' v \<or> py_contains ''alpha'' v then ''master''
      else get_major_version v) \<and>
   (py_contains ''beta'' v \<longleftrightarrow> (\<exists>a b. v = a @ ''beta'' @ b)) \<and>
   (py_contains ''alpha'' v \<longleftrightarrow> (\<exists>a b. v = a @ ''alpha'' @ b)) \<and>
   (v = a @ ''beta'' @ b \<or> v = a @ ''alpha'' @ b \<longrightarrow>
      release_branch_name (ReleasePreparer_init env v auth) = ''master'') \<and>
   (\<not> py_contains ''beta'' v \<and> \<not> py_contains ''alpha'' v \<longrightarrow>
      release_branch_name (ReleasePreparer_init env v auth) = get_major_version v \<and>
      release_branch_name (ReleasePreparer_init env v auth) =
        major_version (ReleasePreparer_init env v auth)) \<and>
   release_branch_name (ReleasePreparer_init env ''3.1.0-alpha1'' auth) = ''master'' \<and>
   release_branch_name (ReleasePreparer_init env ''3.1.0-rc1'' auth) = ''3.1'' \<and>
   release_branch_name (ReleasePreparer_init env ''3.1.0'' auth) = ''3.1'' \<and>
   CommitInRemoteBranch_check preparer env =
     (case official_maas_remote env of
        Inl e \<Rightarrow> Inl e
      | Inr official \<Rightarrow>
          (case in_remote_branch official (release_branch_name preparer)
                  (get_remote_branches_containing env ''HEAD'') of
             Inl e \<Rightarrow> Inl e
           | Inr found \<Rightarrow>
               if found then Inr (True, None)
               else Inr (False, Some (''Current HEAD is not in '' @ format_optional official @
                                      ''/'' @ release_branch_name preparer)))) \<and>
   CommitInRemoteBranch_check (ReleasePreparer_init example_env ''3.1.0-rc1'' auth)
       (example_env \<lparr> git_branch_r_contains := (\<lambda>commit. ''  origin/3.1\<newline>'') \<rparr>) =
     Inr (True, None) \<and>
   CommitInRemoteBranch_check (ReleasePreparer_init example_env ''3.1.0-rc1'' auth) example_env =
     Inr (False, Some ''Current HEAD is not in origin/3.1'')"
proof -
  let ?env31 = "example_env \<lparr> git_branch_r_contains := (\<lambda>commit. ''  origin/3.1\<newline>'') \<rparr>"
  have m: "get_major_version ''3.1.0-beta3'' = ''3.1''"
    by (simp add: get_major_version_def py_rsplit1_def)
  have g: "get_version_grade ''3.1.0-beta3'' = Inr ''beta''"
    by (simp add: get_version_grade_def py_startswith_def py_index_def)
  have c: "get_snap_release_channel ''3.1.0-beta3'' = Inr ''3.1/beta''"
    using m g by (simp add: get_snap_release_channel_def channel_of_grade_def)
  have mv: "major_version (ReleasePreparer_init env ''3.1.0-beta3'' auth) = ''3.1''"
    using m by (simp add: ReleasePreparer_init_def)
  have b: "release_branch_name (ReleasePreparer_init env ''3.1.0-beta3'' auth) = ''master''"
    for env
    by (simp add: release_branch_name_rule py_startswith_def)
  have k: "CommitInRemoteBranch_check (ReleasePreparer_init env ''3.1.0-beta3'' auth) env =
     (case official_maas_remote env of
        Inl e \<Rightarrow> Inl e
      | Inr official \<Rightarrow>
          (case in_remote_branch official ''master''
                  (get_remote_branches_containing env ''HEAD'') of
             Inl e \<Rightarrow> Inl e
           | Inr found \<Rightarrow>
               if found then Inr (True, None)
               else Inr (False, Some (''Current HEAD is not in '' @ format_optional official @
                                      ''/master''))))"
    unfolding CommitInRemoteBranch_check_branch b by (simp split: sum.splits)
  have e1: "CommitInRemoteBranch_check (ReleasePreparer_init example_env ''3.1.0-beta3'' auth)
              example_env = Inr (True, None)"
    unfolding CommitInRemoteBranch_check_branch b example_remote_branches by simp
  have e2: "CommitInRemoteBranch_check (ReleasePreparer_init example_env ''3.1.0-beta3'' auth)
              ?env31 = Inr (False, Some ''Current HEAD is not in origin/master'')"
    unfolding CommitInRemoteBranch_check_branch b example_remote_branches
    by (simp add: format_optional_def)
  have n1: "release_branch_name (ReleasePreparer_init env v auth) =
     (if py_contains ''beta'' v \<or> py_contains ''alpha'' v then ''master''
      else get_major_version v)"
    by (rule release_branch_name_rule)
  have n2: "py_contains ''beta'' v \<longleftrightarrow> (\<exists>a b. v = a @ ''beta'' @ b)"
    by (rule py_contains_iff_infix)
  have n3: "py_contains ''alpha'' v \<longleftrightarrow> (\<exists>a b. v = a @ ''alpha'' @ b)"
    by (rule py_contains_iff_infix)
  have n4: "release_branch_name (ReleasePreparer_init env v auth) = ''master''"
    if "v = a @ ''beta'' @ b \<or> v = a @ ''alpha'' @ b"
  proof -
    have "py_contains ''beta'' v \<or> py_contains ''alpha'' v"
      using that py_contains_infix [of "''beta''" a b] py_contains_infix [of "''alpha''" a b]
      by auto
    then show ?thesis using n1 by simp
  qed
  have n5: "release_branch_name (ReleasePreparer_init env v auth) = get_major_version v \<and>
      release_branch_name (ReleasePreparer_init env v auth) =
        major_version (ReleasePreparer_init env v auth)"
    if "\<not> py_contains ''beta'' v \<and> \<not> py_contains ''alpha'' v"
    using that n1 by (simp add: ReleasePreparer_init_def)
  have i1: "release_branch_name (ReleasePreparer_init env ''3.1.0-alpha1'' auth) = ''master''"
    by (simp add: release_branch_name_rule py_startswith_def)
  have i2: "release_branch_name (ReleasePreparer_init env ''3.1.0-rc1'' auth) = ''3.1''"
    for env
    by (simp add: release_branch_name_rule py_startswith_def get_major_version_def
        py_rsplit1_def)
  have i3: "release_branch_name (ReleasePreparer_init env ''3.1.0'' auth) = ''3.1''"
    by (simp add: release_branch_name_rule py_startswith_def get_major_version_def
        py_rsplit1_def)
  have n6: "CommitInRemoteBranch_check preparer env =
     (case official_maas_remote env of
        Inl e \<Rightarrow> Inl e
      | Inr official \<Rightarrow>
          (case in_remote_branch official (release_branch_name preparer)
                  (get_remote_branches_containing env ''HEAD'') of
             Inl e \<Rightarrow> Inl e
           | Inr found \<Rightarrow>
               if found then Inr (True, None)
               else Inr (False, Some (''Current HEAD is not in '' @ format_optional official @
                                      ''/'' @ release_branch_name preparer))))"
    by (rule CommitInRemoteBranch_check_branch)
  have e3: "CommitInRemoteBranch_check (ReleasePreparer_init example_env ''3.1.0-rc1'' auth)
              ?env31 = Inr (True, None)"
    unfolding CommitInRemoteBranch_check_branch i2 example_remote_branches by simp
  have e4: "CommitInRemoteBranch_check (ReleasePreparer_init example_env ''3.1.0-rc1'' auth)
              example_env = Inr (False, Some ''Current HEAD is not in origin/3.1'')"
    unfolding CommitInRemoteBranch_check_branch i2 example_remote_branches
    by (simp add: format_optional_def)
  have old: "get_major_version ''3.1.0-beta3'' = ''3.1'' \<and>
   get_version_grade ''3.1.0-beta3'' = Inr ''beta'' \<and>
   get_snap_release_channel ''3.1.0-beta3'' = Inr ''3.1/beta'' \<and>
   major_version (ReleasePreparer_init env ''3.1.0-beta3'' auth) = ''3.1'' \<and>
   release_branch_name (ReleasePreparer_init env ''3.1.0-beta3'' auth) = ''master''"
    using m g c mv b [of env] by blast
  show ?thesis
    using old k e1 e2 n1 n2 n3 n4 n5 i1 i2 [of env] i3 n6 e3 e4
    by (intro conjI impI) (assumption | blast)+
qed

text \<open>
  C8 at \<^verbatim>\<open>3.1.0-alpha1\<close>, in which \<^verbatim>\<open>alpha\<close> occurs, and at \<^verbatim>\<open>3.1.0-rc1\<close>, in
  which neither qualifier occurs.
\<close>

theorem beta_release_from_master_witness:
  "release_branch_name
     (ReleasePreparer_init example_env ''3.1.0-alpha1'' ''Macaroon root=r, discharge=d'') =
     ''master'' \<and>
   release_branch_name
     (ReleasePreparer_init example_env ''3.1.0-rc1'' ''Macaroon root=r, discharge=d'') = ''3.1''"
proof -
  have d: "''3.1.0-alpha1'' = ''3.1.0-'' @ ''alpha'' @ ''1''"
    by simp
  have n: "\<not> py_contains ''beta'' ''3.1.0-rc1'' \<and> \<not> py_contains ''alpha'' ''3.1.0-rc1''"
    by (simp add: py_startswith_def)
  have mj: "get_major_version ''3.1.0-rc1'' = ''3.1''"
    by (simp add: get_major_version_def py_rsplit1_def)
  have a: "release_branch_name
     (ReleasePreparer_init example_env ''3.1.0-alpha1'' ''Macaroon root=r, discharge=d'') =
     ''master''"
    using beta_release_from_master
            [where env = example_env and auth = "''Macaroon root=r, discharge=d''"
               and v = "''3.1.0-alpha1''" and a = "''3.1.0-''" and b = "''1''"
               and preparer = example_preparer] d
    by blast
  have b: "release_branch_name
     (ReleasePreparer_init example_env ''3.1.0-rc1'' ''Macaroon root=r, discharge=d'') = ''3.1''"
    using beta_release_from_master
            [where env = example_env and auth = "''Macaroon root=r, discharge=d''"
               and v = "''3.1.0-rc1''" and a = "''3.1.0-''" and b = "''1''"
               and preparer = example_preparer] n mj
    by metis
  show ?thesis using a b by blast
qed

section \<open>Properties of running the steps\<close>

lemma step_report_returning:
  "check s env = Inr (success, message) \<Longrightarrow>
   step_report env s =
     Stdout (title s @ '': '') #
     StdoutGlyph (if \<not> success then large_red_circle else check_mark) #
     print_message message"
  by (simp add: step_report_def)

lemma run_steps_returning:
  assumes "\<forall>s \<in> set steps. \<exists>r. check s env = Inr r"
  shows "run_steps env steps all_good =
           (concat (map (step_report env) steps),
            Inr (all_good \<and> (\<forall>s \<in> set steps. passed env s)))"
  using assms
proof (induction steps arbitrary: all_good)
  case Nil
  show ?case by simp
next
  case (Cons s steps)
  obtain success message where r: "check s env = Inr (success, message)"
    using Cons.prems by fastforce
  have rest: "\<forall>s \<in> set steps. \<exists>r. check s env = Inr r"
    using Cons.prems by simp
  have p: "passed env s = success"
    using r by (simp add: passed_def)
  show ?case
    using Cons.IH [OF rest] r p step_report_returning [OF r]
    by (auto simp: Let_def)
qed

text \<open>
  C3.  When every check of the sequence returns a result, \<^verbatim>\<open>run\<close> reports every
  step in order (title, glyph of its result, message), whatever the results of the
  steps before it; it then prints \<^verbatim>\<open>All checks PASSED!\<close> and returns \<^verbatim>\<open>None\<close> when
  every check passed, and otherwise returns the non-empty string
  \<^verbatim>\<open>Some checks FAILED, proceed with caution\<close>.
\<close>

theorem run_reports_every_step:
  assumes "\<forall>s \<in> set steps. \<exists>r. check s env = Inr r"
  shows "run env steps =
           (if \<forall>s \<in> set steps. passed env s
            then (concat (map (step_report env) steps) @
                    [Stdout ''\<newline>'', Stdout ''All checks PASSED!\<newline>''],
                  Inr ReturnNone)
            else (concat (map (step_report env) steps) @ [Stdout ''\<newline>''],
                  Inr (ReturnStr ''Some checks FAILED, proceed with caution'')))"
  unfolding run_def run_steps_returning [OF assms] by simp

text \<open>C3 on the three example steps: the steps after the first failure are reported.\<close>

theorem run_reports_every_step_witness:
  "run () example_steps =
     ([Stdout ''first: '', StdoutGlyph large_red_circle, Stdout ''  no\<newline>'',
       Stdout ''  not yet\<newline>'',
       Stdout ''second: '', StdoutGlyph check_mark,
       Stdout ''third: '', StdoutGlyph large_red_circle,
       Stdout ''\<newline>''],
      Inr (ReturnStr ''Some checks FAILED, proceed with caution''))"
proof -
  have h: "\<forall>s \<in> set example_steps. \<exists>r. check s () = Inr r"
    by (auto simp: example_steps_def)
  have p: "\<not> (\<forall>s \<in> set example_steps. passed () s)"
    by (simp add: example_steps_def passed_def)
  have r: "concat (map (step_report ()) example_steps) =
     [Stdout ''first: '', StdoutGlyph large_red_circle, Stdout ''  no\<newline>'',
       Stdout ''  not yet\<newline>'',
       Stdout ''second: '', StdoutGlyph check_mark,
       Stdout ''third: '', StdoutGlyph large_red_circle]"
    by (simp add: example_steps_def step_report_def print_message_def py_splitlines_def
        py_linebreak_def)
  show ?thesis
    using run_reports_every_step [OF h] p r by simp
qed

section \<open>Properties of PackageBuilt\<close>

text \<open>
  C1 (as amended).  With no tarball matching the pattern of the version and short
  revision, \<^verbatim>\<open>PackageBuilt.check\<close> returns a failure with a message; with exactly
  one it passes; with more than one it raises \<^verbatim>\<open>ValueError\<close> and returns no
  result.  It passes only when exactly one file matches.
\<close>

theorem PackageBuilt_check_by_matches:
  assumes "glob env (''build_pkg/maas_'' @ py_replace ''-'' ''~'' (version preparer) @ ''-*-g.'' @
                     git_short_rev preparer @ ''.orig.tar.gz'') = tar_gzs"
  shows "(tar_gzs = [] \<longrightarrow>
            PackageBuilt_check preparer env =
              Inr (False, Some ''No orig.tar.gz could be found for the current revision'')) \<and>
         (length tar_gzs = 1 \<longrightarrow> PackageBuilt_check preparer env = Inr (True, None)) \<and>
         (1 < length tar_gzs \<longrightarrow> PackageBuilt_check preparer env = Inl ValueError) \<and>
         ((\<exists>message. PackageBuilt_check preparer env = Inr (True, message)) \<longleftrightarrow>
            length tar_gzs = 1)"
proof (cases tar_gzs)
  case Nil
  then show ?thesis using assms by (simp add: PackageBuilt_check_def)
next
  case (Cons f fs)
  then show ?thesis using assms by (cases fs) (simp_all add: PackageBuilt_check_def)
qed

lemma example_pattern:
  "''build_pkg/maas_'' @ py_replace ''-'' ''~'' (version example_preparer) @ ''-*-g.'' @
     git_short_rev example_preparer @ ''.orig.tar.gz'' =
   ''build_pkg/maas_3.1.0~beta3-*-g.1a2b3c4.orig.tar.gz''"
  by (simp add: example_preparer_def ReleasePreparer_init_def get_git_short_rev_def
      example_env_def py_strip_def py_isspace_def py_startswith_def)

text \<open>C1 with no, one and two tarballs built for \<^verbatim>\<open>3.1.0-beta3\<close>.\<close>

theorem PackageBuilt_check_by_matches_witness:
  "PackageBuilt_check example_preparer example_env =
     Inr (False, Some ''No orig.tar.gz could be found for the current revision'') \<and>
   PackageBuilt_check example_preparer
     (example_env \<lparr> glob := (\<lambda>pattern.
        [''build_pkg/maas_3.1.0~beta3-10738-g.1a2b3c4.orig.tar.gz'']) \<rparr>) = Inr (True, None) \<and>
   PackageBuilt_check example_preparer
     (example_env \<lparr> glob := (\<lambda>pattern.
        [''build_pkg/maas_3.1.0~beta3-10738-g.1a2b3c4.orig.tar.gz'',
         ''build_pkg/maas_3.1.0~beta3-10739-g.1a2b3c4.orig.tar.gz'']) \<rparr>) = Inl ValueError"
proof -
  let ?one = "[''build_pkg/maas_3.1.0~beta3-10738-g.1a2b3c4.orig.tar.gz'']"
  let ?two = "[''build_pkg/maas_3.1.0~beta3-10738-g.1a2b3c4.orig.tar.gz'',
         ''build_pkg/maas_3.1.0~beta3-10739-g.1a2b3c4.orig.tar.gz'']"
  let ?p = "''build_pkg/maas_'' @ py_replace ''-'' ''~'' (version example_preparer) @ ''-*-g.'' @
     git_short_rev example_preparer @ ''.orig.tar.gz''"
  have g0: "glob example_env ?p = []" by (simp add: example_env_def)
  have g1: "glob (example_env \<lparr> glob := (\<lambda>pattern. ?one) \<rparr>) ?p = ?one" by simp
  have g2: "glob (example_env \<lparr> glob := (\<lambda>pattern. ?two) \<rparr>) ?p = ?two" by simp
  have a: "PackageBuilt_check example_preparer example_env =
     Inr (False, Some ''No orig.tar.gz could be found for the current revision'')"
    using PackageBuilt_check_by_matches [OF g0] by simp
  have b: "PackageBuilt_check example_preparer (example_env \<lparr> glob := (\<lambda>pattern. ?one) \<rparr>) =
     Inr (True, None)"
    using PackageBuilt_check_by_matches [OF g1] by simp
  have c: "PackageBuilt_check example_preparer (example_env \<lparr> glob := (\<lambda>pattern. ?two) \<rparr>) =
     Inl ValueError"
    using PackageBuilt_check_by_matches [OF g2] by simp
  show ?thesis using a b c by blast
qed

text \<open>
  C1 as stated fails for two matching tarballs: the check raises where the claim has
  it return a failed result with a message.
\<close>

theorem PackageBuilt_check_two_matches_raises:
  "length (glob (example_env \<lparr> glob := (\<lambda>pattern.
        [''build_pkg/maas_3.1.0~beta3-10738-g.1a2b3c4.orig.tar.gz'',
         ''build_pkg/maas_3.1.0~beta3-10739-g.1a2b3c4.orig.tar.gz'']) \<rparr>)
       ''build_pkg/maas_3.1.0~beta3-*-g.1a2b3c4.orig.tar.gz'') = 2 \<and>
   PackageBuilt_check example_preparer
     (example_env \<lparr> glob := (\<lambda>pattern.
        [''build_pkg/maas_3.1.0~beta3-10738-g.1a2b3c4.orig.tar.gz'',
         ''build_pkg/maas_3.1.0~beta3-10739-g.1a2b3c4.orig.tar.gz'']) \<rparr>) = Inl ValueError \<and>
   \<not> (\<exists>message. PackageBuilt_check example_preparer
     (example_env \<lparr> glob := (\<lambda>pattern.
        [''build_pkg/maas_3.1.0~beta3-10738-g.1a2b3c4.orig.tar.gz'',
         ''build_pkg/maas_3.1.0~beta3-10739-g.1a2b3c4.orig.tar.gz'']) \<rparr>) = Inr (False, message))"
  by (simp add: PackageBuilt_check_def)

section \<open>Properties of SnapTrack and the macaroon errors\<close>

lemma scan_unrecognised_prefix:
  "\<forall>e \<in> set pre. unrecognised_error e \<Longrightarrow>
   scan_error_list str_of snap_name msg (pre @ rest) = scan_error_list str_of snap_name msg rest"
proof (induction pre)
  case Nil
  show ?case by simp
next
  case (Cons e pre)
  then show ?case by (cases e) auto
qed

lemma scan_well_formed_prefix:
  assumes "\<forall>e \<in> set pre. well_formed_error e"
    and "map_of err ''code'' = Some (JStr ''macaroon-needs-refresh'')"
  shows "\<exists>m. scan_error_list str_of snap_name msg (pre @ JObj err # post) =
               Inr (m @ get_macaroon_refresh_help) \<and>
             (m = ''Macaroon has expired.\<newline>'' \<or>
              (\<exists>p. m = ''Macaroon doesn't have '' @ p @ '' for '' @ snap_name @ ''.\<newline>''))"
  using assms(1)
proof (induction pre)
  case Nil
  show ?case using assms(2) by simp
next
  case (Cons e pre)
  then obtain d where e: "e = JObj d" by (cases e) auto
  have ih: "\<exists>m. scan_error_list str_of snap_name msg (pre @ JObj err # post) =
               Inr (m @ get_macaroon_refresh_help) \<and>
             (m = ''Macaroon has expired.\<newline>'' \<or>
              (\<exists>p. m = ''Macaroon doesn't have '' @ p @ '' for '' @ snap_name @ ''.\<newline>''))"
    using Cons by simp
  consider (refresh) "map_of d ''code'' = Some (JStr ''macaroon-needs-refresh'')"
    | (permission) "map_of d ''code'' = Some (JStr ''macaroon-permission-required'')"
    | (other) "map_of d ''code'' \<noteq> Some (JStr ''macaroon-needs-refresh'')"
              "map_of d ''code'' \<noteq> Some (JStr ''macaroon-permission-required'')"
    by blast
  then show ?case
  proof cases
    case refresh
    then show ?thesis using e by simp
  next
    case permission
    have wf: "well_formed_error (JObj d)" using Cons.prems e by simp
    then obtain extra v where x: "map_of d ''extra'' = Some (JObj extra)"
        "map_of extra ''permission'' = Some v"
      using permission by (auto split: option.splits json.splits)
    have "scan_error_list str_of snap_name msg ((e # pre) @ JObj err # post) =
            Inr ((''Macaroon doesn't have '' @ py_format str_of v @ '' for '' @ snap_name @
                  ''.\<newline>'') @ get_macaroon_refresh_help)"
      using e permission x by simp
    then show ?thesis by blast
  next
    case other
    then show ?thesis using e ih by simp
  qed
qed


lemma auth_error_of_error_list:
  assumes "status_code res \<in> {401, 403}"
    and "res_json res = Some (JObj result)"
    and "map_of result ''error_list'' = Some (JArr errs)"
  shows "get_macaroon_auth_error str_of res snap_name =
           (case scan_error_list str_of snap_name (res_text res) errs of
              Inl e \<Rightarrow> Inl e
            | Inr error_message \<Rightarrow> Inr (Some error_message))"
  using assms by (auto simp: get_macaroon_auth_error_def)

lemma SnapTrack_check_not_200:
  assumes "snap_track_update env snap_name (major_version preparer) (snapstore_auth preparer) = res"
    and "status_code res \<noteq> 200"
    and "get_macaroon_auth_error (py_str env) res snap_name = Inr auth_error"
  shows "SnapTrack_check preparer snap_name env = Inr (False, auth_error)"
  using assms by (simp add: SnapTrack_check_def Let_def)

text \<open>
  C4 (as amended).  \<^verbatim>\<open>SnapTrack.check\<close> passes iff the store answers with status
  200.  For an answer of status 401 or 403 whose JSON body is an object with a list
  \<^verbatim>\<open>error_list\<close>, the first entry with one of the two known codes decides the
  message, provided the entries before it are dicts.  If an entry has code
  \<^verbatim>\<open>macaroon-needs-refresh\<close> and every entry before it is a dict that carries
  \<^verbatim>\<open>extra.permission\<close> when its code is \<^verbatim>\<open>macaroon-permission-required\<close>, the check
  fails with a message that ends with the refresh instructions, which is not the
  raw body: \<^verbatim>\<open>Macaroon has expired.\<close> when no entry before it has a known code.  An
  entry of code \<^verbatim>\<open>macaroon-permission-required\<close> with permission \<open>p\<close>, after
  entries of other codes, gives a message naming \<open>p\<close> and the snap.
\<close>

theorem SnapTrack_check_status_and_macaroon_hint:
  assumes "snap_track_update env snap_name (major_version preparer) (snapstore_auth preparer) = res"
  shows "((\<exists>message. SnapTrack_check preparer snap_name env = Inr (True, message)) \<longleftrightarrow>
            status_code res = 200) \<and>
         (status_code res \<in> {401, 403} \<and> res_json res = Some (JObj result) \<and>
          map_of result ''error_list'' = Some (JArr (pre @ JObj err # post)) \<and>
          (\<forall>e \<in> set pre. well_formed_error e) \<and>
          map_of err ''code'' = Some (JStr ''macaroon-needs-refresh'') \<longrightarrow>
            (\<exists>m. SnapTrack_check preparer snap_name env =
                    Inr (False, Some (m @ get_macaroon_refresh_help)) \<and>
                  (m = ''Macaroon has expired.\<newline>'' \<or>
                   (\<exists>p. m = ''Macaroon doesn't have '' @ p @ '' for '' @ snap_name @
                              ''.\<newline>'')))) \<and>
         (status_code res \<in> {401, 403} \<and> res_json res = Some (JObj result) \<and>
          map_of result ''error_list'' = Some (JArr (pre @ JObj err # post)) \<and>
          (\<forall>e \<in> set pre. unrecognised_error e) \<and>
          map_of err ''code'' = Some (JStr ''macaroon-needs-refresh'') \<longrightarrow>
            SnapTrack_check preparer snap_name env =
              Inr (False, Some (''Macaroon has expired.\<newline>'' @ get_macaroon_refresh_help))) \<and>
         (status_code res \<in> {401, 403} \<and> res_json res = Some (JObj result) \<and>
          map_of result ''error_list'' = Some (JArr (pre @ JObj err # post)) \<and>
          (\<forall>e \<in> set pre. unrecognised_error e) \<and>
          map_of err ''code'' = Some (JStr ''macaroon-permission-required'') \<and>
          map_of err ''extra'' = Some (JObj extra) \<and>
          map_of extra ''permission'' = Some (JStr permission) \<longrightarrow>
            SnapTrack_check preparer snap_name env =
              Inr (False, Some (''Macaroon doesn't have '' @ permission @ '' for '' @ snap_name @
                                ''.\<newline>'' @ get_macaroon_refresh_help)))"
proof -
  have one: "(\<exists>message. SnapTrack_check preparer snap_name env = Inr (True, message)) \<longleftrightarrow>
            status_code res = 200"
    using assms
    by (auto simp: SnapTrack_check_def Let_def get_macaroon_auth_error_def split: sum.splits)
  have two: "\<exists>m. SnapTrack_check preparer snap_name env =
                    Inr (False, Some (m @ get_macaroon_refresh_help)) \<and>
                  (m = ''Macaroon has expired.\<newline>'' \<or>
                   (\<exists>p. m = ''Macaroon doesn't have '' @ p @ '' for '' @ snap_name @
                              ''.\<newline>''))"
    if h: "status_code res \<in> {401, 403}" "res_json res = Some (JObj result)"
      "map_of result ''error_list'' = Some (JArr (pre @ JObj err # post))"
      "\<forall>e \<in> set pre. well_formed_error e"
      "map_of err ''code'' = Some (JStr ''macaroon-needs-refresh'')"
  proof -
    obtain m where m: "scan_error_list (py_str env) snap_name (res_text res)
                         (pre @ JObj err # post) = Inr (m @ get_macaroon_refresh_help)"
      "m = ''Macaroon has expired.\<newline>'' \<or>
       (\<exists>p. m = ''Macaroon doesn't have '' @ p @ '' for '' @ snap_name @ ''.\<newline>'')"
      using scan_well_formed_prefix [OF h(4) h(5)] by blast
    have "get_macaroon_auth_error (py_str env) res snap_name =
            Inr (Some (m @ get_macaroon_refresh_help))"
      using auth_error_of_error_list [OF h(1) h(2) h(3)] m(1) by simp
    moreover have "status_code res \<noteq> 200" using h(1) by auto
    ultimately have "SnapTrack_check preparer snap_name env =
                       Inr (False, Some (m @ get_macaroon_refresh_help))"
      using SnapTrack_check_not_200 [OF assms] by blast
    then show ?thesis using m(2) by blast
  qed
  have three: "SnapTrack_check preparer snap_name env =
              Inr (False, Some (''Macaroon has expired.\<newline>'' @ get_macaroon_refresh_help))"
    if h: "status_code res \<in> {401, 403}" "res_json res = Some (JObj result)"
      "map_of result ''error_list'' = Some (JArr (pre @ JObj err # post))"
      "\<forall>e \<in> set pre. unrecognised_error e"
      "map_of err ''code'' = Some (JStr ''macaroon-needs-refresh'')"
  proof -
    have "scan_error_list (py_str env) snap_name (res_text res) (pre @ JObj err # post) =
            Inr (''Macaroon has expired.\<newline>'' @ get_macaroon_refresh_help)"
      using scan_unrecognised_prefix [OF h(4)] h(5) by simp
    then have "get_macaroon_auth_error (py_str env) res snap_name =
            Inr (Some (''Macaroon has expired.\<newline>'' @ get_macaroon_refresh_help))"
      using auth_error_of_error_list [OF h(1) h(2) h(3)] by simp
    moreover have "status_code res \<noteq> 200" using h(1) by auto
    ultimately show ?thesis
      using SnapTrack_check_not_200 [OF assms] by blast
  qed
  have four: "SnapTrack_check preparer snap_name env =
              Inr (False, Some (''Macaroon doesn't have '' @ permission @ '' for '' @ snap_name @
                                ''.\<newline>'' @ get_macaroon_refresh_help))"
    if h: "status_code res \<in> {401, 403}" "res_json res = Some (JObj result)"
      "map_of result ''error_list'' = Some (JArr (pre @ JObj err # post))"
      "\<forall>e \<in> set pre. unrecognised_error e"
      "map_of err ''code'' = Some (JStr ''macaroon-permission-required'')"
      "map_of err ''extra'' = Some (JObj extra)"
      "map_of extra ''permission'' = Some (JStr permission)"
  proof -
    have "scan_error_list (py_str env) snap_name (res_text res) (pre @ JObj err # post) =
            Inr (''Macaroon doesn't have '' @ permission @ '' for '' @ snap_name @
                                ''.\<newline>'' @ get_macaroon_refresh_help)"
      using scan_unrecognised_prefix [OF h(4)] h(5) h(6) h(7) by simp
    then have "get_macaroon_auth_error (py_str env) res snap_name =
            Inr (Some (''Macaroon doesn't have '' @ permission @ '' for '' @ snap_name @
                                ''.\<newline>'' @ get_macaroon_refresh_help))"
      using auth_error_of_error_list [OF h(1) h(2) h(3)] by simp
    moreover have "status_code res \<noteq> 200" using h(1) by auto
    ultimately show ?thesis
      using SnapTrack_check_not_200 [OF assms] by blast
  qed
  show ?thesis using one two three four by blast
qed


text \<open>C4 at a 200 answer, an expired macaroon and a missing permission.\<close>

theorem SnapTrack_check_status_and_macaroon_hint_witness:
  "SnapTrack_check example_preparer ''maas'' example_env = Inr (True, None) \<and>
   SnapTrack_check example_preparer ''maas''
     (example_env \<lparr> snap_track_update := (\<lambda>name track auth.
        forbidden [JObj [(''code'', JStr ''macaroon-needs-refresh''),
                         (''message'', JStr ''Authorization needs refresh'')]]) \<rparr>) =
     Inr (False, Some (''Macaroon has expired.\<newline>'' @ get_macaroon_refresh_help)) \<and>
   SnapTrack_check example_preparer ''maas''
     (example_env \<lparr> snap_track_update := (\<lambda>name track auth.
        forbidden [JObj [(''code'', JStr ''user-not-ready'')],
                   JObj [(''code'', JStr ''macaroon-permission-required''),
                         (''extra'', JObj [(''permission'', JStr ''package_access'')])]]) \<rparr>) =
     Inr (False, Some (''Macaroon doesn't have package_access for maas.\<newline>'' @
                       get_macaroon_refresh_help))"
proof -
  let ?refresh = "[(''code'', JStr ''macaroon-needs-refresh''),
                   (''message'', JStr ''Authorization needs refresh'')]"
  let ?perm = "[(''code'', JStr ''macaroon-permission-required''),
                (''extra'', JObj [(''permission'', JStr ''package_access'')])]"
  let ?other = "JObj [(''code'', JStr ''user-not-ready'')]"
  let ?env1 = "example_env \<lparr> snap_track_update := (\<lambda>name track auth.
                 forbidden [JObj ?refresh]) \<rparr>"
  let ?env2 = "example_env \<lparr> snap_track_update := (\<lambda>name track auth.
                 forbidden [?other, JObj ?perm]) \<rparr>"
  let ?ok = "\<lparr> status_code = 200, res_text = ''{}'', res_json = Some (JObj []) \<rparr>"
  have r0: "snap_track_update example_env ''maas'' (major_version example_preparer)
              (snapstore_auth example_preparer) = ?ok"
    by (simp add: example_env_def)
  have r1: "snap_track_update ?env1 ''maas'' (major_version example_preparer)
              (snapstore_auth example_preparer) = forbidden [JObj ?refresh]"
    by simp
  have r2: "snap_track_update ?env2 ''maas'' (major_version example_preparer)
              (snapstore_auth example_preparer) = forbidden [?other, JObj ?perm]"
    by simp
  have "\<exists>message. SnapTrack_check example_preparer ''maas'' example_env = Inr (True, message)"
    using SnapTrack_check_status_and_macaroon_hint
            [OF r0, of "[]" "[]" "[]" "[]" "[]" "[]"]
    by simp
  then have a: "SnapTrack_check example_preparer ''maas'' example_env = Inr (True, None)"
    by (auto simp: SnapTrack_check_def Let_def r0 get_macaroon_auth_error_def)
  have b: "SnapTrack_check example_preparer ''maas'' ?env1 =
     Inr (False, Some (''Macaroon has expired.\<newline>'' @ get_macaroon_refresh_help))"
    using SnapTrack_check_status_and_macaroon_hint
            [OF r1, of "[(''error_list'', JArr [JObj ?refresh])]" "[]" ?refresh "[]" "[]" "[]"]
    by (simp add: forbidden_def)
  have c: "SnapTrack_check example_preparer ''maas'' ?env2 =
     Inr (False, Some (''Macaroon doesn't have package_access for maas.\<newline>'' @
                       get_macaroon_refresh_help))"
    using SnapTrack_check_status_and_macaroon_hint
            [OF r2, of "[(''error_list'', JArr [?other, JObj ?perm])]" "[?other]" ?perm "[]"
               "[(''permission'', JStr ''package_access'')]" "''package_access''"]
    by (simp add: forbidden_def)
  show ?thesis using a b c by blast
qed

text \<open>
  C4 as stated fails for a 403 answer whose \<^verbatim>\<open>error_list\<close> has an entry of code
  \<^verbatim>\<open>macaroon-permission-required\<close> without \<^verbatim>\<open>extra\<close> before the entry of code
  \<^verbatim>\<open>macaroon-needs-refresh\<close>: the check raises \<^verbatim>\<open>KeyError\<close> and gives no message.
\<close>

theorem SnapTrack_check_malformed_entry_raises:
  "status_code (forbidden [JObj [(''code'', JStr ''macaroon-permission-required'')],
                           JObj [(''code'', JStr ''macaroon-needs-refresh'')]]) = 403 \<and>
   res_json (forbidden [JObj [(''code'', JStr ''macaroon-permission-required'')],
                        JObj [(''code'', JStr ''macaroon-needs-refresh'')]]) =
     Some (JObj [(''error_list'',
                  JArr [JObj [(''code'', JStr ''macaroon-permission-required'')],
                        JObj [(''code'', JStr ''macaroon-needs-refresh'')]])]) \<and>
   SnapTrack_check example_preparer ''maas''
     (example_env \<lparr> snap_track_update := (\<lambda>name track auth.
        forbidden [JObj [(''code'', JStr ''macaroon-permission-required'')],
                   JObj [(''code'', JStr ''macaroon-needs-refresh'')]]) \<rparr>) =
     Inl (KeyError ''extra'')"
  by (simp add: forbidden_def SnapTrack_check_def get_macaroon_auth_error_def)

section \<open>Properties of MAASPackagePublished\<close>

lemma py_index_in_range: "i < length xs \<Longrightarrow> py_index xs i = Inr (xs ! i)"
  by (simp add: py_index_def)

lemma py_index_out_of_range: "\<not> i < length xs \<Longrightarrow> py_index xs i = Inl IndexError"
  by (simp add: py_index_def)

lemma check_version_short:
  assumes "length (py_split CHR ''-''
             (if py_contains '':'' pv then last (py_split1 CHR '':'' pv) else pv)) < 3"
  shows "check_version preparer pv =
           (if hd (py_split CHR ''-''
                  (if py_contains '':'' pv then last (py_split1 CHR '':'' pv) else pv)) =
               py_replace ''-'' ''~'' (version preparer)
            then Inl IndexError else Inr False)"
proof -
  let ?parts = "py_split CHR ''-''
                  (if py_contains '':'' pv then last (py_split1 CHR '':'' pv) else pv)"
  have ne: "?parts \<noteq> []" by (rule py_split_nonempty)
  then have i0: "py_index ?parts 0 = Inr (hd ?parts)"
    by (simp add: py_index_def hd_conv_nth)
  have i2: "py_index ?parts 2 = Inl IndexError"
    using assms by (simp add: py_index_def)
  show ?thesis
    unfolding check_version_def Let_def i0 i2 by simp
qed

text \<open>
  C9 (as amended).  When the archive is found and reports more than one published
  \<^verbatim>\<open>maas\<close> source package, \<^verbatim>\<open>MAASPackagePublished.check\<close> raises \<^verbatim>\<open>ValueError\<close>
  and returns no result.  When a package version, its epoch removed, has fewer than
  three parts separated by \<^verbatim>\<open>-\<close>, \<^verbatim>\<open>_check_version\<close> raises \<^verbatim>\<open>IndexError\<close> if
  the first part is the expected version, and returns false without raising if it
  is not.
\<close>

theorem MAASPackagePublished_check_raises:
  "(getPPAByName env (ppa_owner self) (ppa_name self) = Some ppa \<and>
    1 < length (published_maas_sources ppa) \<longrightarrow>
      MAASPackagePublished_check preparer self env = Inl ValueError) \<and>
   (length (py_split CHR ''-''
             (if py_contains '':'' pv then last (py_split1 CHR '':'' pv) else pv)) < 3 \<longrightarrow>
      check_version preparer pv =
        (if hd (py_split CHR ''-''
                  (if py_contains '':'' pv then last (py_split1 CHR '':'' pv) else pv)) =
            py_replace ''-'' ''~'' (version preparer)
         then Inl IndexError else Inr False))"
proof -
  have a: "MAASPackagePublished_check preparer self env = Inl ValueError"
    if h: "getPPAByName env (ppa_owner self) (ppa_name self) = Some ppa"
      "1 < length (published_maas_sources ppa)"
  proof -
    obtain x ys where s1: "published_maas_sources ppa = x # ys"
      using h(2) by (cases "published_maas_sources ppa") auto
    obtain y zs where s2: "ys = y # zs"
      using h(2) s1 by (cases ys) auto
    have s: "published_maas_sources ppa = x # y # zs"
      using s1 s2 by simp
    show ?thesis
      using h(1) s by (simp add: MAASPackagePublished_check_def Let_def)
  qed
  show ?thesis using a check_version_short [of pv preparer] by blast
qed

text \<open>C9 at two published sources and at two package versions of two parts.\<close>

theorem MAASPackagePublished_check_raises_witness:
  "MAASPackagePublished_check example_preparer example_ppa
     (example_env \<lparr> getPPAByName := (\<lambda>owner name.
        Some \<lparr> processors = BUILD_ARCHS, published_sources = [],
               published_maas_sources =
                 [\<lparr> source_package_name = ''maas'',
                    source_package_version = ''1:3.1.0~beta3-10738-g.1a2b3c4-0ubuntu1~20.04.1'' \<rparr>,
                  \<lparr> source_package_name = ''maas'',
                    source_package_version = ''1:3.1.0~beta2-10600-g.99aa11b-0ubuntu1~20.04.1'' \<rparr>],
               published_maas_binaries = [] \<rparr>) \<rparr>) = Inl ValueError \<and>
   check_version example_preparer ''1:3.1.0~beta3-0ubuntu1'' = Inl IndexError \<and>
   check_version example_preparer ''1:3.0.0-0ubuntu1'' = Inr False"
proof -
  let ?ppa = "\<lparr> processors = BUILD_ARCHS, published_sources = [],
               published_maas_sources =
                 [\<lparr> source_package_name = ''maas'',
                    source_package_version = ''1:3.1.0~beta3-10738-g.1a2b3c4-0ubuntu1~20.04.1'' \<rparr>,
                  \<lparr> source_package_name = ''maas'',
                    source_package_version = ''1:3.1.0~beta2-10600-g.99aa11b-0ubuntu1~20.04.1'' \<rparr>],
               published_maas_binaries = [] \<rparr>"
  let ?env = "example_env \<lparr> getPPAByName := (\<lambda>owner name. Some ?ppa) \<rparr>"
  have e: "py_replace ''-'' ''~'' (version example_preparer) = ''3.1.0~beta3''"
    by (simp add: example_preparer_def ReleasePreparer_init_def py_startswith_def)
  have p1: "(if py_contains '':'' ''1:3.1.0~beta3-0ubuntu1''
             then last (py_split1 CHR '':'' ''1:3.1.0~beta3-0ubuntu1'')
             else ''1:3.1.0~beta3-0ubuntu1'') = ''3.1.0~beta3-0ubuntu1''"
    by (simp add: py_startswith_def py_split1_def)
  have p2: "(if py_contains '':'' ''1:3.0.0-0ubuntu1''
             then last (py_split1 CHR '':'' ''1:3.0.0-0ubuntu1'')
             else ''1:3.0.0-0ubuntu1'') = ''3.0.0-0ubuntu1''"
    by (simp add: py_startswith_def py_split1_def)
  have a: "MAASPackagePublished_check example_preparer example_ppa ?env = Inl ValueError"
    using MAASPackagePublished_check_raises
            [of ?env example_ppa ?ppa example_preparer "''1:3.0.0-0ubuntu1''"]
    by simp
  have b: "check_version example_preparer ''1:3.1.0~beta3-0ubuntu1'' = Inl IndexError"
    using MAASPackagePublished_check_raises
            [of ?env example_ppa ?ppa example_preparer "''1:3.1.0~beta3-0ubuntu1''"]
    unfolding p1 e by simp
  have c: "check_version example_preparer ''1:3.0.0-0ubuntu1'' = Inr False"
    using MAASPackagePublished_check_raises
            [of ?env example_ppa ?ppa example_preparer "''1:3.0.0-0ubuntu1''"]
    unfolding p2 e by simp
  show ?thesis using a b c by blast
qed

text \<open>
  C9 as stated fails for the published version \<^verbatim>\<open>1:3.0.0-0ubuntu1\<close> when
  \<^verbatim>\<open>3.1.0~beta3\<close> is expected: it has two parts and the comparison returns false.
\<close>

theorem check_version_short_without_raising:
  "length (py_split CHR ''-'' ''3.0.0-0ubuntu1'') = 2 \<and>
   check_version example_preparer ''1:3.0.0-0ubuntu1'' = Inr False"
  by (simp add: check_version_def example_preparer_def ReleasePreparer_init_def
      py_startswith_def py_split1_def py_index_def)

section \<open>Properties of ReleaseTagged\<close>

lemma not_tagged_is_not_points_to:
  "t @ '' points to '' @ r @ '' instead of '' @ g \<noteq> ''Release hasn't been tagged yet.''"
proof
  assume "t @ '' points to '' @ r @ '' instead of '' @ g = ''Release hasn't been tagged yet.''"
  then have "py_contains '' points to '' ''Release hasn't been tagged yet.''"
    using py_contains_infix [of "'' points to ''" t "r @ '' instead of '' @ g"] by simp
  then show False by (simp add: py_startswith_def)
qed

lemma not_tagged_is_not_pushed:
  "t @ '' tag is not pushed to '' @ r \<noteq> ''Release hasn't been tagged yet.''"
proof
  assume "t @ '' tag is not pushed to '' @ r = ''Release hasn't been tagged yet.''"
  then have "py_contains '' tag is not pushed to '' ''Release hasn't been tagged yet.''"
    using py_contains_infix [of "'' tag is not pushed to ''" t r] by simp
  then show False by (simp add: py_startswith_def)
qed

lemma pushed_result_is_not_not_tagged:
  "(case off of
      Inl e \<Rightarrow> Inl e
    | Inr official \<Rightarrow>
        (case rem of
           Inl e \<Rightarrow> Inl e
         | Inr remotes \<Rightarrow>
             if official \<notin> set (map Some remotes)
             then Inr (False, Some (t @ '' tag is not pushed to '' @ format_optional official))
             else Inr (True, None))) \<noteq>
   (Inr (False, Some ''Release hasn't been tagged yet.'') :: error + check_result)"
proof (cases off)
  case (Inl e)
  then show ?thesis by simp
next
  case off: (Inr official)
  show ?thesis
  proof (cases rem)
    case (Inl e)
    then show ?thesis using off by simp
  next
    case (Inr remotes)
    show ?thesis
    proof (cases "official \<notin> set (map Some remotes)")
      case True
      have "t @ '' tag is not pushed to '' @ format_optional official \<noteq>
              ''Release hasn't been tagged yet.''"
        by (rule not_tagged_is_not_pushed)
      then have "(Inr (False, Some (t @ '' tag is not pushed to '' @ format_optional official))
                   :: error + check_result) \<noteq>
                 Inr (False, Some ''Release hasn't been tagged yet.'')"
        by (simp only: sum.inject prod.inject option.inject simp_thms not_False_eq_True)
      then show ?thesis using off Inr True by simp
    next
      case False
      then show ?thesis using off Inr by simp
    qed
  qed
qed

text \<open>
  C10 (as amended).  When the tag-commit lookup of the tag name, the short-revision
  lookup of the empty string and the short-revision lookup of the tag name all give
  the empty string, \<^verbatim>\<open>ReleaseTagged.check\<close> fails with
  \<^verbatim>\<open>The <tag> isn't an annotated tag\<close>.  The result
  \<^verbatim>\<open>Release hasn't been tagged yet.\<close> is returned exactly when the short revision of
  the tag commit is empty and the short-revision lookup of the tag name is not.
\<close>

theorem ReleaseTagged_check_untagged:
  "(get_tag_commit env (version preparer) = [] \<and> get_git_short_rev env [] = [] \<and>
    get_git_short_rev env (version preparer) = [] \<longrightarrow>
      ReleaseTagged_check preparer env =
        Inr (False, Some (''The '' @ version preparer @ '' isn't an annotated tag''))) \<and>
   (ReleaseTagged_check preparer env = Inr (False, Some ''Release hasn't been tagged yet.'') \<longleftrightarrow>
      get_git_short_rev env (get_tag_commit env (version preparer)) = [] \<and>
      get_git_short_rev env (version preparer) \<noteq> [])"
proof -
  let ?t = "version preparer"
  let ?r = "get_git_short_rev env (get_tag_commit env ?t)"
  have a: "ReleaseTagged_check preparer env =
        Inr (False, Some (''The '' @ ?t @ '' isn't an annotated tag''))"
    if "get_tag_commit env ?t = []" "get_git_short_rev env [] = []"
       "get_git_short_rev env ?t = []"
    using that by (simp add: ReleaseTagged_check_def Let_def)
  have b: "ReleaseTagged_check preparer env = Inr (False, Some ''Release hasn't been tagged yet.'')"
    if "?r = []" "get_git_short_rev env ?t \<noteq> []"
    using that by (simp add: ReleaseTagged_check_def Let_def)
  have c: "?r = [] \<and> get_git_short_rev env ?t \<noteq> []"
    if h: "ReleaseTagged_check preparer env = Inr (False, Some ''Release hasn't been tagged yet.'')"
  proof (rule ccontr)
    assume n: "\<not> (?r = [] \<and> get_git_short_rev env ?t \<noteq> [])"
    show False
    proof (cases "?r = get_git_short_rev env ?t")
      case True
      then have "ReleaseTagged_check preparer env =
                   Inr (False, Some (''The '' @ ?t @ '' isn't an annotated tag''))"
        by (simp add: ReleaseTagged_check_def Let_def)
      then show False using h by simp
    next
      case False
      then have ne: "?r \<noteq> []" using n by auto
      show False
      proof (cases "?r \<noteq> git_short_rev preparer")
        case True
        then have "ReleaseTagged_check preparer env =
                     Inr (False, Some (?t @ '' points to '' @ ?r @ '' instead of '' @
                                       git_short_rev preparer))"
          using False ne by (simp add: ReleaseTagged_check_def Let_def)
        then have "(Inr (False, Some (?t @ '' points to '' @ ?r @ '' instead of '' @
                                       git_short_rev preparer)) :: error + check_result) =
                   Inr (False, Some ''Release hasn't been tagged yet.'')"
          using h by (rule trans [OF sym])
        then have "?t @ '' points to '' @ ?r @ '' instead of '' @ git_short_rev preparer =
                   ''Release hasn't been tagged yet.''"
          by (simp only: sum.inject prod.inject option.inject simp_thms)
        then show False using not_tagged_is_not_points_to by blast
      next
        case same: False
        have "ReleaseTagged_check preparer env =
           (case official_maas_remote env of
              Inl e \<Rightarrow> Inl e
            | Inr official \<Rightarrow>
                (case remotes_of (get_remote_branches_containing env ?t) of
                   Inl e \<Rightarrow> Inl e
                 | Inr remotes \<Rightarrow>
                     if official \<notin> set (map Some remotes)
                     then Inr (False, Some (?t @ '' tag is not pushed to '' @
                                            format_optional official))
                     else Inr (True, None)))"
          using False ne same by (simp add: ReleaseTagged_check_def Let_def)
        then have "(case official_maas_remote env of
              Inl e \<Rightarrow> Inl e
            | Inr official \<Rightarrow>
                (case remotes_of (get_remote_branches_containing env ?t) of
                   Inl e \<Rightarrow> Inl e
                 | Inr remotes \<Rightarrow>
                     if official \<notin> set (map Some remotes)
                     then Inr (False, Some (?t @ '' tag is not pushed to '' @
                                            format_optional official))
                     else Inr (True, None))) =
              Inr (False, Some ''Release hasn't been tagged yet.'')"
          using h by (rule trans [OF sym])
        then show False
          using pushed_result_is_not_not_tagged
                    [where off = "official_maas_remote env"
                       and rem = "remotes_of (get_remote_branches_containing env ?t)"
                       and t = ?t]
          by blast
      qed
    qed
  qed
  show ?thesis using a b c by blast
qed

text \<open>C10 in the example environment, where nothing is tagged.\<close>

theorem ReleaseTagged_check_untagged_witness:
  "ReleaseTagged_check example_preparer example_env =
     Inr (False, Some ''The 3.1.0-beta3 isn't an annotated tag'')"
proof -
  have v: "version example_preparer = ''3.1.0-beta3''"
    by (simp add: example_preparer_def ReleasePreparer_init_def)
  have t: "get_tag_commit example_env (version example_preparer) = []"
    by (simp add: get_tag_commit_def example_env_def py_strip_def)
  have e: "get_git_short_rev example_env [] = []"
    by (simp add: get_git_short_rev_def example_env_def py_strip_def)
  have s: "get_git_short_rev example_env (version example_preparer) = []"
    unfolding v by (simp add: get_git_short_rev_def example_env_def py_strip_def)
  show ?thesis
    using ReleaseTagged_check_untagged [of example_env example_preparer] t e s v by simp
qed

text \<open>
  C10 as stated fails where \<^verbatim>\<open>3.1.0-beta3\<close> names a branch and no tag: the tag
  commit is empty, the name itself resolves, and the check answers
  \<^verbatim>\<open>Release hasn't been tagged yet.\<close>
\<close>

theorem ReleaseTagged_check_not_tagged_reached:
  "get_tag_commit
     (example_env \<lparr> git_rev_parse_short := (\<lambda>commit.
        if commit = ''HEAD'' \<or> commit = ''3.1.0-beta3'' then ''1a2b3c4\<newline>'' else []) \<rparr>)
     ''3.1.0-beta3'' = [] \<and>
   ReleaseTagged_check example_preparer
     (example_env \<lparr> git_rev_parse_short := (\<lambda>commit.
        if commit = ''HEAD'' \<or> commit = ''3.1.0-beta3'' then ''1a2b3c4\<newline>'' else []) \<rparr>) =
     Inr (False, Some ''Release hasn't been tagged yet.'')"
  by (simp add: ReleaseTagged_check_def get_tag_commit_def get_git_short_rev_def
      example_env_def example_preparer_def ReleasePreparer_init_def py_strip_def py_isspace_def)

section \<open>Properties of the command line\<close>

text \<open>
  C5 (as amended).  \<^verbatim>\<open>main\<close> takes the one positional argument as the version of
  the preparer without matching it against a pattern.  With the credential loaded,
  the sixteen checks run for every argument for which \<^verbatim>\<open>get_snap_release_channel\<close>
  returns, which it does for every argument without \<^verbatim>\<open>-\<close>; an argument for which
  it raises ends \<^verbatim>\<open>main\<close> with that exception before any check runs.
\<close>

theorem main_runs_unvalidated_version:
  assumes "login_section env = Some macaroon" and "macaroon_auth env macaroon = Inr auth"
  shows "version (ReleasePreparer_init env v auth) = v \<and>
         (get_snap_release_channel v = Inr ch \<longrightarrow>
            (\<exists>steps. main_steps env (ReleasePreparer_init env v auth) = Inr steps \<and>
                     length steps = 16 \<and> main env v = run env steps)) \<and>
         (get_snap_release_channel v = Inl e \<longrightarrow> main env v = ([], Inl e)) \<and>
         (CHR ''-'' \<notin> set v \<longrightarrow>
            get_snap_release_channel v = Inr (get_major_version v @ ''/stable''))"
proof -
  let ?p = "ReleasePreparer_init env v auth"
  have ver: "version ?p = v" by (simp add: ReleasePreparer_init_def)
  have m: "main env v =
             (case main_steps env ?p of Inl e \<Rightarrow> ([], Inl e) | Inr steps \<Rightarrow> run env steps)"
    using assms by (simp add: main_def Let_def)
  have ok: "\<exists>steps. main_steps env ?p = Inr steps \<and> length steps = 16"
    if "get_snap_release_channel v = Inr ch"
    using that ver by (simp add: main_steps_def bind_error_def MAASPPA_init_def)
  have bad: "main_steps env ?p = Inl e" if "get_snap_release_channel v = Inl e"
    using that ver by (simp add: main_steps_def bind_error_def MAASPPA_init_def)
  have fin: "get_snap_release_channel v = Inr (get_major_version v @ ''/stable'')"
    if "CHR ''-'' \<notin> set v"
    using that
    by (simp add: get_snap_release_channel_def get_version_grade_def py_contains_char
        channel_of_grade_def)
  show ?thesis using ver m ok bad fin by (auto split: sum.splits)
qed


lemma example_main_steps:
  "main_steps example_env example_preparer =
     Inr [MAASVersion example_preparer,
          NoUncommittedChanges example_preparer,
          CommitInRemoteBranch example_preparer,
          SnapTrack example_preparer ''maas'',
          SnapTrack example_preparer ''maas-test-db'',
          MAASPPA_step \<lparr> ppa_type = ''stable'', ppa_name = ''3.1'', ppa_owner = ''maas'' \<rparr>,
          MAASPPA_step \<lparr> ppa_type = ''candidate'', ppa_name = ''3.1-next'', ppa_owner = ''maas'' \<rparr>,
          MAASPPA_step example_ppa,
          PackageBuilt example_preparer,
          MAASPackagePublished example_preparer example_ppa,
          SnapsUploaded example_preparer,
          SnapsInChannel example_preparer ''3.1/beta/release-prep'',
          PackagesCopiedFromDeps example_ppa,
          PackagesCopiedToReleasePPA
            \<lparr> ppa_type = ''candidate'', ppa_name = ''3.1-next'', ppa_owner = ''maas'' \<rparr>,
          SnapsInChannel example_preparer ''3.1/beta'',
          ReleaseTagged example_preparer]"
proof -
  have v: "version example_preparer = ''3.1.0-beta3''"
    "major_version example_preparer = ''3.1''"
    by (simp_all add: example_preparer_def ReleasePreparer_init_def get_major_version_def
        py_rsplit1_def)
  have c: "get_snap_release_channel ''3.1.0-beta3'' = Inr ''3.1/beta''"
    by (simp add: get_snap_release_channel_def get_version_grade_def get_major_version_def
        py_rsplit1_def py_startswith_def py_index_def channel_of_grade_def)
  have l: "lp_me example_env = ''releaser''" by (simp add: example_env_def)
  show ?thesis
    by (simp add: main_steps_def bind_error_def MAASPPA_init_def v c l example_ppa_def)
qed


lemma glyphs_append: "glyphs (a @ b) = glyphs a @ glyphs b"
  by (induction a rule: glyphs.induct) simp_all

lemma glyphs_print_message: "glyphs (print_message message) = []"
proof -
  have "glyphs (map (\<lambda>line. Stdout (f line)) ls) = []" for f :: "string \<Rightarrow> string" and ls
    by (induction ls) simp_all
  then show ?thesis by (simp add: print_message_def split: option.splits)
qed

lemma glyphs_step_report:
  "check s env = Inr r \<Longrightarrow>
   glyphs (step_report env s) = [if passed env s then check_mark else large_red_circle]"
  by (simp add: step_report_def passed_def glyphs_print_message)

lemma glyphs_reports:
  "\<forall>s \<in> set steps. \<exists>r. check s env = Inr r \<Longrightarrow>
   glyphs (concat (map (step_report env) steps)) =
     map (\<lambda>s. if passed env s then check_mark else large_red_circle) steps"
proof (induction steps)
  case Nil
  show ?case by simp
next
  case (Cons s steps)
  obtain r where r: "check s env = Inr r" using Cons.prems by auto
  show ?case
    using Cons glyphs_step_report [OF r] by (simp add: glyphs_append)
qed

lemma glyphs_run:
  assumes "\<forall>s \<in> set steps. \<exists>r. check s env = Inr r"
  shows "glyphs (fst (run env steps)) =
           map (\<lambda>s. if passed env s then check_mark else large_red_circle) steps"
    and "snd (run env steps) =
           Inr (if \<forall>s \<in> set steps. passed env s then ReturnNone
                else ReturnStr ''Some checks FAILED, proceed with caution'')"
  unfolding run_def run_steps_returning [OF assms]
  using glyphs_reports [OF assms] by (simp_all add: glyphs_append)

lemma example_checks:
  "check (MAASVersion example_preparer) example_env = Inr (True, None)"
  "check (NoUncommittedChanges example_preparer) example_env = Inr (True, None)"
  "check (CommitInRemoteBranch example_preparer) example_env = Inr (True, None)"
  "check (SnapTrack example_preparer ''maas'') example_env = Inr (True, None)"
  "check (SnapTrack example_preparer ''maas-test-db'') example_env = Inr (True, None)"
  "check (MAASPPA_step self) example_env = Inr (ppa_not_found (ppa_owner self) (ppa_name self))"
  "check (PackageBuilt example_preparer) example_env =
     Inr (False, Some ''No orig.tar.gz could be found for the current revision'')"
  "check (MAASPackagePublished example_preparer self) example_env =
     Inr (ppa_not_found (ppa_owner self) (ppa_name self))"
  "check (SnapsUploaded example_preparer) example_env =
     Inr (False, Some ''Missing builds for: amd64, arm64, ppc64el, s390x'')"
  "check (SnapsInChannel example_preparer channel) example_env =
     Inr (False, Some ''Missing releases for: amd64, arm64, ppc64el, s390x'')"
  "check (PackagesCopiedFromDeps self) example_env =
     Inr (False, Some ''ppa:maas-committers/latest-deps couldn't be found.'')"
  "check (PackagesCopiedToReleasePPA self) example_env =
     Inr (ppa_not_found ''releaser'' (''maas-'' @ ppa_name self))"
  "check (ReleaseTagged example_preparer) example_env =
     Inr (False, Some ''The 3.1.0-beta3 isn't an annotated tag'')"
proof -
  have p: "version example_preparer = ''3.1.0-beta3''"
    "python_version example_preparer = ''3.1.0b3''"
    "major_version example_preparer = ''3.1''"
    "git_short_rev example_preparer = ''1a2b3c4''"
    by (simp_all add: example_preparer_def ReleasePreparer_init_def get_major_version_def
        py_rsplit1_def py_startswith_def get_git_short_rev_def example_env_def py_strip_def
        py_isspace_def)
  show "check (MAASVersion example_preparer) example_env = Inr (True, None)"
    by (simp add: MAASVersion_def MAASVersion_check_def p example_env_def py_split1_def
        py_startswith_def)
  show "check (NoUncommittedChanges example_preparer) example_env = Inr (True, None)"
    by (simp add: NoUncommittedChanges_def NoUncommittedChanges_check_def example_env_def)
  have rb: "get_remote_branches_containing example_env ''HEAD'' =
              [[''origin'', ''HEAD -> origin/master''], [''origin'', ''master'']]"
    by (simp add: get_remote_branches_containing_def example_env_def py_splitlines_def
        py_linebreak_def py_strip_def py_isspace_def py_split1_def)
  have bn: "release_branch_name example_preparer = ''master''"
    by (simp add: release_branch_name_def p py_startswith_def)
  have om: "official_maas_remote example_env = Inr (Some ''origin'')"
    by (simp add: example_env_def)
  show "check (CommitInRemoteBranch example_preparer) example_env = Inr (True, None)"
    by (simp add: CommitInRemoteBranch_def CommitInRemoteBranch_check_def rb bn om)
  show "check (SnapTrack example_preparer ''maas'') example_env = Inr (True, None)"
    by (simp add: SnapTrack_def SnapTrack_check_def example_env_def get_macaroon_auth_error_def)
  show "check (SnapTrack example_preparer ''maas-test-db'') example_env = Inr (True, None)"
    by (simp add: SnapTrack_def SnapTrack_check_def example_env_def get_macaroon_auth_error_def)
  show "check (MAASPPA_step self) example_env =
          Inr (ppa_not_found (ppa_owner self) (ppa_name self))"
    by (simp add: MAASPPA_step_def MAASPPA_check_def example_env_def)
  show "check (PackageBuilt example_preparer) example_env =
     Inr (False, Some ''No orig.tar.gz could be found for the current revision'')"
    by (simp add: PackageBuilt_def PackageBuilt_check_def example_env_def)
  show "check (MAASPackagePublished example_preparer self) example_env =
     Inr (ppa_not_found (ppa_owner self) (ppa_name self))"
    by (simp add: MAASPackagePublished_def MAASPackagePublished_check_def example_env_def)
  show "check (SnapsUploaded example_preparer) example_env =
     Inr (False, Some ''Missing builds for: amd64, arm64, ppc64el, s390x'')"
    by (simp add: SnapsUploaded_def example_env_def)
  show "check (SnapsInChannel example_preparer channel) example_env =
     Inr (False, Some ''Missing releases for: amd64, arm64, ppc64el, s390x'')"
    by (simp add: SnapsInChannel_def example_env_def)
  show "check (PackagesCopiedFromDeps self) example_env =
     Inr (False, Some ''ppa:maas-committers/latest-deps couldn't be found.'')"
    by (simp add: PackagesCopiedFromDeps_def PackagesCopiedFromDeps_check_def example_env_def)
  show "check (PackagesCopiedToReleasePPA self) example_env =
     Inr (ppa_not_found ''releaser'' (''maas-'' @ ppa_name self))"
    by (simp add: PackagesCopiedToReleasePPA_def PackagesCopiedToReleasePPA_check_def
        example_env_def)
  show "check (ReleaseTagged example_preparer) example_env =
     Inr (False, Some ''The 3.1.0-beta3 isn't an annotated tag'')"
    by (simp add: ReleaseTagged_def ReleaseTagged_check_def p get_tag_commit_def
        get_git_short_rev_def example_env_def py_strip_def)
qed

text \<open>
  C5 as stated fails for the argument \<^verbatim>\<open>3.1.0-beta3\<close>: it does not match the
  pattern, and \<^verbatim>\<open>main\<close> runs the sixteen checks on it.
\<close>

theorem main_runs_checks_on_unmatched_version:
  "\<not> matches_version_pattern ''3.1.0-beta3'' \<and>
   glyphs (fst (main example_env ''3.1.0-beta3'')) =
     [check_mark, check_mark, check_mark, check_mark, check_mark,
      large_red_circle, large_red_circle, large_red_circle, large_red_circle,
      large_red_circle, large_red_circle, large_red_circle, large_red_circle,
      large_red_circle, large_red_circle, large_red_circle] \<and>
   snd (main example_env ''3.1.0-beta3'') =
     Inr (ReturnStr ''Some checks FAILED, proceed with caution'')"
proof -
  let ?steps = "[MAASVersion example_preparer,
          NoUncommittedChanges example_preparer,
          CommitInRemoteBranch example_preparer,
          SnapTrack example_preparer ''maas'',
          SnapTrack example_preparer ''maas-test-db'',
          MAASPPA_step \<lparr> ppa_type = ''stable'', ppa_name = ''3.1'', ppa_owner = ''maas'' \<rparr>,
          MAASPPA_step \<lparr> ppa_type = ''candidate'', ppa_name = ''3.1-next'', ppa_owner = ''maas'' \<rparr>,
          MAASPPA_step example_ppa,
          PackageBuilt example_preparer,
          MAASPackagePublished example_preparer example_ppa,
          SnapsUploaded example_preparer,
          SnapsInChannel example_preparer ''3.1/beta/release-prep'',
          PackagesCopiedFromDeps example_ppa,
          PackagesCopiedToReleasePPA
            \<lparr> ppa_type = ''candidate'', ppa_name = ''3.1-next'', ppa_owner = ''maas'' \<rparr>,
          SnapsInChannel example_preparer ''3.1/beta'',
          ReleaseTagged example_preparer]"
  have n: "\<not> matches_version_pattern ''3.1.0-beta3''"
    by (simp add: matches_version_pattern_def is_number_def py_startswith_def)
  have ls: "login_section example_env =
              Some [(''macaroon'', ''r''), (''unbound_discharge'', ''d'')]"
    by (simp add: example_env_def)
  have ma: "macaroon_auth example_env [(''macaroon'', ''r''), (''unbound_discharge'', ''d'')] =
              Inr ''Macaroon root=r, discharge=d''"
    by (simp add: example_env_def)
  have m: "main example_env ''3.1.0-beta3'' = run example_env ?steps"
    by (simp add: main_def ls ma Let_def example_preparer_def [symmetric] example_main_steps)
  have r: "\<forall>s \<in> set ?steps. \<exists>r. check s example_env = Inr r"
    by (auto simp: example_checks ppa_not_found_def)
  have g: "map (\<lambda>s. if passed example_env s then check_mark else large_red_circle) ?steps =
     [check_mark, check_mark, check_mark, check_mark, check_mark,
      large_red_circle, large_red_circle, large_red_circle, large_red_circle,
      large_red_circle, large_red_circle, large_red_circle, large_red_circle,
      large_red_circle, large_red_circle, large_red_circle]"
    by (simp add: passed_def example_checks ppa_not_found_def)
  have f: "\<not> (\<forall>s \<in> set ?steps. passed example_env s)"
    by (simp add: passed_def example_checks ppa_not_found_def)
  show ?thesis
    using n m glyphs_run [OF r] g f by simp
qed


text \<open>C5 in the example environment at three arguments.\<close>

theorem main_runs_unvalidated_version_witness:
  "login_section example_env = Some [(''macaroon'', ''r''), (''unbound_discharge'', ''d'')] \<and>
   macaroon_auth example_env [(''macaroon'', ''r''), (''unbound_discharge'', ''d'')] =
     Inr ''Macaroon root=r, discharge=d'' \<and>
   get_snap_release_channel ''3.1.0-beta3'' = Inr ''3.1/beta'' \<and>
   (\<exists>steps. length steps = 16 \<and> main example_env ''3.1.0-beta3'' = run example_env steps) \<and>
   get_snap_release_channel ''3.1.0-alpha1'' =
     Inl (RuntimeError ''Unknown version suffix: alpha1'') \<and>
   main example_env ''3.1.0-alpha1'' =
     ([], Inl (RuntimeError ''Unknown version suffix: alpha1'')) \<and>
   get_snap_release_channel ''banana'' = Inr ''banana/stable''"
proof -
  have ls: "login_section example_env =
              Some [(''macaroon'', ''r''), (''unbound_discharge'', ''d'')]"
    by (simp add: example_env_def)
  have ma: "macaroon_auth example_env [(''macaroon'', ''r''), (''unbound_discharge'', ''d'')] =
              Inr ''Macaroon root=r, discharge=d''"
    by (simp add: example_env_def)
  have c1: "get_snap_release_channel ''3.1.0-beta3'' = Inr ''3.1/beta''"
    by (simp add: get_snap_release_channel_def get_version_grade_def get_major_version_def
        py_rsplit1_def py_startswith_def py_index_def channel_of_grade_def)
  have c2: "get_snap_release_channel ''3.1.0-alpha1'' =
              Inl (RuntimeError ''Unknown version suffix: alpha1'')"
    by (simp add: get_snap_release_channel_def get_version_grade_def get_major_version_def
        py_rsplit1_def py_startswith_def py_index_def)
  have mj: "get_major_version ''banana'' = ''banana''"
    by (simp add: get_major_version_def py_rsplit1_def)
  have a: "\<exists>steps. length steps = 16 \<and> main example_env ''3.1.0-beta3'' = run example_env steps"
    using main_runs_unvalidated_version
            [OF ls ma, where v = "''3.1.0-beta3''" and ch = "''3.1/beta''"
               and e = "RuntimeError ''Unknown version suffix: alpha1''"] c1
    by blast
  have b: "main example_env ''3.1.0-alpha1'' =
             ([], Inl (RuntimeError ''Unknown version suffix: alpha1''))"
    using main_runs_unvalidated_version
            [OF ls ma, where v = "''3.1.0-alpha1''" and ch = "''3.1/beta''"
               and e = "RuntimeError ''Unknown version suffix: alpha1''"] c2
    by blast
  have c: "get_snap_release_channel ''banana'' = Inr ''banana/stable''"
    using main_runs_unvalidated_version
            [OF ls ma, where v = "''banana''" and ch = "''3.1/beta''"
               and e = "RuntimeError ''Unknown version suffix: alpha1''"] mj
    by simp
  show ?thesis using ls ma c1 c2 a b c by blast
qed

end
